theory Spec2Isabelle
  imports Complex_Main "HOL-Library.AList"
begin

section \<open>Errors\<close>

text \<open>
  Every exception the modelled Python can raise is a value of this type; a function that
  can raise returns \<open>error + 'a\<close>, with \<open>Inl\<close> for the exception.
\<close>

datatype error =
    RuntimeError        \<comment> \<open>torch: operand shapes cannot be broadcast\<close>
  | AttributeError      \<comment> \<open>attribute read or written on an object that has none of that name\<close>
  | TypeError           \<comment> \<open>a configuration value of the wrong kind\<close>
  | IndexError          \<comment> \<open>matrix entry outside the matrix\<close>
  | ZeroDivisionError
  | InvalidArgument     \<comment> \<open>the error kind the specification asks for; the code never raises it\<close>
  | ConfigNotFound
  | ConfigParseError

definition err_bind :: "error + 'a \<Rightarrow> ('a \<Rightarrow> error + 'b) \<Rightarrow> error + 'b" where
  "err_bind m f = (case m of Inl e \<Rightarrow> Inl e | Inr x \<Rightarrow> f x)"

section \<open>\<open>lib/layers/reconstruction_loss.py\<close>\<close>

text \<open>
  A tensor is modelled by the list of its elements. In this section the elements are real
  numbers and the arithmetic is exact: this is the formula that the function computes.
  The one operation that has no real result, the mean of a tensor without elements
  (\<open>0 / 0\<close>, which torch returns as \<open>nan\<close>), is written out: a reduced loss is a
  \<open>scalar\<close>, a number or \<open>NaN\<close>. Rounding, overflow and the infinities of the
  floating-point formats are the subject of the two sections after this one, where the
  same function is modelled operation by operation in floating-point arithmetic.

  The lists stand for one-dimensional tensors, and for tensors of one common shape of any
  rank read in row-major order: \<open>abs\<close>, \<open><\<close>, \<open>where\<close>, \<open>mean\<close> and \<open>sum\<close> do not
  look at the shape. \<open>input - target\<close> follows torch's broadcasting of one-dimensional
  operands: equal lengths subtract elementwise, a length-one operand is stretched, any
  other pair of lengths raises.
\<close>

datatype scalar = Num real | NaN

definition tensor_sub :: "real list \<Rightarrow> real list \<Rightarrow> error + real list" where
  "tensor_sub xs ys =
     (if length xs = length ys then Inr (map2 (\<lambda>x y. x - y) xs ys)
      else if length ys = 1 then Inr (map (\<lambda>x. x - hd ys) xs)
      else if length xs = 1 then Inr (map (\<lambda>y. hd xs - y) ys)
      else Inl RuntimeError)"

text \<open>The two arms of \<open>torch.where(cond, 0.5 * n ** 2 / beta, n - 0.5 * beta)\<close>.\<close>

definition quadratic_branch :: "real \<Rightarrow> real \<Rightarrow> real" where
  "quadratic_branch beta n = 0.5 * n ^ 2 / beta"

definition linear_branch :: "real \<Rightarrow> real \<Rightarrow> real" where
  "linear_branch beta n = n - 0.5 * beta"

text \<open>
  One element of \<open>loss\<close>, from one element \<open>d\<close> of \<open>input - target\<close>:
  \<open>n = |d|\<close>, \<open>cond = n < beta\<close>, and \<open>where\<close> selects the arm. The arm that is not
  selected does not reach the result, so the division by \<open>beta\<close> is only ever used
  where \<open>n < beta\<close>, that is where \<open>beta\<close> is positive.
\<close>

definition elementwise_loss :: "real \<Rightarrow> real \<Rightarrow> real" where
  "elementwise_loss beta d =
     (let n = \<bar>d\<bar>; cond = n < beta
      in if cond then quadratic_branch beta n else linear_branch beta n)"

definition tensor_mean :: "real list \<Rightarrow> scalar" where
  "tensor_mean xs = (if xs = [] then NaN else Num (sum_list xs / real (length xs)))"

definition tensor_sum :: "real list \<Rightarrow> scalar" where
  "tensor_sum xs = Num (sum_list xs)"

definition reconstruction_loss :: "real list \<Rightarrow> real list \<Rightarrow> real \<Rightarrow> bool \<Rightarrow> error + scalar" where
  "reconstruction_loss input target beta size_average =
     err_bind (tensor_sub input target) (\<lambda>diff.
       let loss = map (elementwise_loss beta) diff
       in if size_average then Inr (tensor_mean loss) else Inr (tensor_sum loss))"

text \<open>
  Reading a reduced loss the way the floating-point comparison does: every comparison
  with \<open>nan\<close> is false.
\<close>

definition scalar_nonneg :: "scalar \<Rightarrow> bool" where
  "scalar_nonneg s = (case s of Num v \<Rightarrow> 0 \<le> v | NaN \<Rightarrow> False)"

definition scalar_is_zero :: "scalar \<Rightarrow> bool" where
  "scalar_is_zero s = (case s of Num v \<Rightarrow> v = 0 | NaN \<Rightarrow> False)"

definition result_nonneg :: "error + scalar \<Rightarrow> bool" where
  "result_nonneg r = (case r of Inl e \<Rightarrow> False | Inr s \<Rightarrow> scalar_nonneg s)"

definition result_is_zero :: "error + scalar \<Rightarrow> bool" where
  "result_is_zero r = (case r of Inl e \<Rightarrow> False | Inr s \<Rightarrow> scalar_is_zero s)"

section \<open>Floating-point arithmetic\<close>

text \<open>
  The tensors that reach \<open>reconstruction_loss\<close> hold floating-point numbers. A value of a
  binary floating-point format is a finite number, an infinity or \<open>nan\<close>. Zero carries
  no sign here: \<open>-0.0\<close> and \<open>0.0\<close> compare equal, and the only quotient by zero
  that reaches a result of the function is \<open>0 / 0\<close>. An operation returns the exact
  result rounded to the format; the rounding function \<open>rnd\<close> of the format is a
  parameter of every operation, so that what is proved holds for each format.
\<close>

datatype fp = Finite real | PosInf | NegInf | NotANumber

definition fp_le :: "fp \<Rightarrow> fp \<Rightarrow> bool" where
  "fp_le a b =
     (case (a, b) of
        (NotANumber, _) \<Rightarrow> False
      | (_, NotANumber) \<Rightarrow> False
      | (NegInf, _) \<Rightarrow> True
      | (_, PosInf) \<Rightarrow> True
      | (Finite x, Finite y) \<Rightarrow> x \<le> y
      | _ \<Rightarrow> False)"

definition fp_lt :: "fp \<Rightarrow> fp \<Rightarrow> bool" where
  "fp_lt a b =
     (case (a, b) of
        (NotANumber, _) \<Rightarrow> False
      | (_, NotANumber) \<Rightarrow> False
      | (Finite x, Finite y) \<Rightarrow> x < y
      | (NegInf, NegInf) \<Rightarrow> False
      | (NegInf, _) \<Rightarrow> True
      | (PosInf, _) \<Rightarrow> False
      | (_, PosInf) \<Rightarrow> True
      | _ \<Rightarrow> False)"

definition fp_negative :: "fp \<Rightarrow> bool" where
  "fp_negative a = (case a of Finite x \<Rightarrow> x < 0 | NegInf \<Rightarrow> True | _ \<Rightarrow> False)"

definition fp_neg :: "fp \<Rightarrow> fp" where
  "fp_neg a = (case a of Finite x \<Rightarrow> Finite (- x) | PosInf \<Rightarrow> NegInf | NegInf \<Rightarrow> PosInf
               | NotANumber \<Rightarrow> NotANumber)"

definition fp_abs :: "fp \<Rightarrow> fp" where
  "fp_abs a = (case a of Finite x \<Rightarrow> Finite \<bar>x\<bar> | PosInf \<Rightarrow> PosInf | NegInf \<Rightarrow> PosInf
               | NotANumber \<Rightarrow> NotANumber)"

fun fp_add :: "(real \<Rightarrow> fp) \<Rightarrow> fp \<Rightarrow> fp \<Rightarrow> fp" where
  "fp_add rnd (Finite x) (Finite y) = rnd (x + y)"
| "fp_add rnd NotANumber b = NotANumber"
| "fp_add rnd a NotANumber = NotANumber"
| "fp_add rnd PosInf NegInf = NotANumber"
| "fp_add rnd NegInf PosInf = NotANumber"
| "fp_add rnd PosInf b = PosInf"
| "fp_add rnd NegInf b = NegInf"
| "fp_add rnd a PosInf = PosInf"
| "fp_add rnd a NegInf = NegInf"

definition fp_sub :: "(real \<Rightarrow> fp) \<Rightarrow> fp \<Rightarrow> fp \<Rightarrow> fp" where
  "fp_sub rnd a b = fp_add rnd a (fp_neg b)"

fun fp_mul :: "(real \<Rightarrow> fp) \<Rightarrow> fp \<Rightarrow> fp \<Rightarrow> fp" where
  "fp_mul rnd (Finite x) (Finite y) = rnd (x * y)"
| "fp_mul rnd NotANumber b = NotANumber"
| "fp_mul rnd a NotANumber = NotANumber"
| "fp_mul rnd a b =
     (if a = Finite 0 \<or> b = Finite 0 then NotANumber
      else if fp_negative a = fp_negative b then PosInf else NegInf)"

fun fp_div :: "(real \<Rightarrow> fp) \<Rightarrow> fp \<Rightarrow> fp \<Rightarrow> fp" where
  "fp_div rnd (Finite x) (Finite y) =
     (if y = 0 then (if x = 0 then NotANumber else if 0 < x then PosInf else NegInf)
      else rnd (x / y))"
| "fp_div rnd NotANumber b = NotANumber"
| "fp_div rnd a NotANumber = NotANumber"
| "fp_div rnd (Finite x) b = Finite 0"
| "fp_div rnd a (Finite y) = (if fp_negative a = (y < 0) then PosInf else NegInf)"
| "fp_div rnd a b = NotANumber"

text \<open>
  What is used of a rounding function: zero is a value of the format, and rounding keeps
  the order. Both hold for the rounding of every IEEE format in every rounding mode.
\<close>

definition rounding :: "(real \<Rightarrow> fp) \<Rightarrow> bool" where
  "rounding rnd \<longleftrightarrow> rnd 0 = Finite 0 \<and> (\<forall>x y. x \<le> y \<longrightarrow> fp_le (rnd x) (rnd y))"

text \<open>A value of one format converted to another: a finite number is rounded again.\<close>

definition fp_cast :: "(real \<Rightarrow> fp) \<Rightarrow> fp \<Rightarrow> fp" where
  "fp_cast rnd a = (case a of Finite x \<Rightarrow> rnd x | _ \<Rightarrow> a)"

subsection \<open>The format \<open>float32\<close>\<close>

text \<open>
  Rounding to the nearest value of the binary32 format, ties to the even significand: 24
  significant bits, exponents from -126 to 127, subnormal numbers in steps of
  \<open>2 powr - 149\<close>, and infinity where the rounded magnitude reaches \<open>2 ^ 128\<close>.
\<close>

definition round_half_even :: "real \<Rightarrow> int" where
  "round_half_even y =
     (let f = \<lfloor>y\<rfloor>; d = y - of_int f
      in if d < 1 / 2 then f else if 1 / 2 < d then f + 1 else if even f then f else f + 1)"

definition exponent32 :: "real \<Rightarrow> int" where
  "exponent32 a = max \<lfloor>log 2 a\<rfloor> (- 126)"

definition ulp32 :: "real \<Rightarrow> real" where
  "ulp32 a = 2 powr of_int (exponent32 a - 23)"

definition magnitude32 :: "real \<Rightarrow> real" where
  "magnitude32 a = ulp32 a * of_int (round_half_even (a / ulp32 a))"

definition round32 :: "real \<Rightarrow> fp" where
  "round32 x =
     (let m = magnitude32 \<bar>x\<bar>
      in if 2 ^ 128 \<le> m then (if 0 \<le> x then PosInf else NegInf)
         else Finite (if x < 0 then - m else m))"

section \<open>\<open>lib/layers/reconstruction_loss.py\<close> in floating-point arithmetic\<close>

text \<open>
  The same function with the elements in a floating-point format, operation by operation.
  \<open>beta\<close> is a Python number; where it meets a tensor it is converted to the format of
  the tensor, and so is the Python number \<open>0.5 * beta\<close>. The constant \<open>0.5\<close> is a
  value of every binary format, \<open>n ** 2\<close> is the product of \<open>n\<close> with itself, and
  \<open>0.5 * n ** 2 / beta\<close> is \<open>(0.5 * (n ** 2)) / beta\<close>.
\<close>

definition tensor_sub_fp :: "(real \<Rightarrow> fp) \<Rightarrow> fp list \<Rightarrow> fp list \<Rightarrow> error + fp list" where
  "tensor_sub_fp rnd xs ys =
     (if length xs = length ys then Inr (map2 (fp_sub rnd) xs ys)
      else if length ys = 1 then Inr (map (\<lambda>x. fp_sub rnd x (hd ys)) xs)
      else if length xs = 1 then Inr (map (\<lambda>y. fp_sub rnd (hd xs) y) ys)
      else Inl RuntimeError)"

definition elementwise_loss_fp :: "(real \<Rightarrow> fp) \<Rightarrow> real \<Rightarrow> fp \<Rightarrow> fp" where
  "elementwise_loss_fp rnd beta d =
     (let n = fp_abs d; cond = fp_lt n (rnd beta)
      in if cond then fp_div rnd (fp_mul rnd (Finite (1 / 2)) (fp_mul rnd n n)) (rnd beta)
         else fp_sub rnd n (rnd (1 / 2 * beta)))"

text \<open>
  \<open>loss.sum()\<close> adds the elements of the tensor, and a floating-point sum depends on the
  order of the additions and on the format of the accumulator, neither of which torch
  promises. Both are parameters here: a \<open>reduction\<close> says which partial sums are added
  to which, starting from single elements (given by their position) and from the initial
  value zero, and \<open>acc\<close> is the rounding of the accumulator; the final sum is converted
  to the format of the tensor. A reduction of a tensor of \<open>n\<close> elements uses each of the
  positions \<open>0, \<dots>, n - 1\<close> once. \<open>loss.mean()\<close> divides the sum by the number of
  elements.
\<close>

datatype reduction = Initial | Element nat | Combine reduction reduction

fun positions :: "reduction \<Rightarrow> nat list" where
  "positions Initial = []"
| "positions (Element i) = [i]"
| "positions (Combine s t) = positions s @ positions t"

definition reduction_of :: "nat \<Rightarrow> reduction \<Rightarrow> bool" where
  "reduction_of n order \<longleftrightarrow> sort (positions order) = [0..<n]"

fun reduce_fp :: "(real \<Rightarrow> fp) \<Rightarrow> fp list \<Rightarrow> reduction \<Rightarrow> fp" where
  "reduce_fp acc xs Initial = Finite 0"
| "reduce_fp acc xs (Element i) = xs ! i"
| "reduce_fp acc xs (Combine s t) = fp_add acc (reduce_fp acc xs s) (reduce_fp acc xs t)"

text \<open>The elements added one after the other, from the first to the last.\<close>

definition left_to_right :: "nat \<Rightarrow> reduction" where
  "left_to_right n = foldl (\<lambda>s i. Combine s (Element i)) Initial [0..<n]"

definition tensor_sum_fp :: "(real \<Rightarrow> fp) \<Rightarrow> (real \<Rightarrow> fp) \<Rightarrow> reduction \<Rightarrow> fp list \<Rightarrow> fp" where
  "tensor_sum_fp acc rnd order xs = fp_cast rnd (reduce_fp acc xs order)"

definition tensor_mean_fp :: "(real \<Rightarrow> fp) \<Rightarrow> (real \<Rightarrow> fp) \<Rightarrow> reduction \<Rightarrow> fp list \<Rightarrow> fp" where
  "tensor_mean_fp acc rnd order xs =
     fp_div rnd (tensor_sum_fp acc rnd order xs) (Finite (real (length xs)))"

definition reconstruction_loss_fp ::
  "(real \<Rightarrow> fp) \<Rightarrow> (real \<Rightarrow> fp) \<Rightarrow> reduction \<Rightarrow> fp list \<Rightarrow> fp list \<Rightarrow> real \<Rightarrow> bool \<Rightarrow> error + fp" where
  "reconstruction_loss_fp acc rnd order input target beta size_average =
     err_bind (tensor_sub_fp rnd input target) (\<lambda>diff.
       let loss = map (elementwise_loss_fp rnd beta) diff
       in if size_average then Inr (tensor_mean_fp acc rnd order loss)
          else Inr (tensor_sum_fp acc rnd order loss))"

definition fp_finite :: "fp \<Rightarrow> bool" where
  "fp_finite a = (case a of Finite x \<Rightarrow> True | _ \<Rightarrow> False)"

text \<open>
  A loss that the comparison \<open>loss >= 0\<close> accepts: a finite number not below zero, or
  plus infinity; every comparison with \<open>nan\<close> is false.
\<close>

definition fp_result_nonneg :: "error + fp \<Rightarrow> bool" where
  "fp_result_nonneg r = (case r of Inl e \<Rightarrow> False | Inr a \<Rightarrow> fp_le (Finite 0) a)"

text \<open>A reduced loss of the exact model, as a floating-point value.\<close>

definition fp_of_scalar :: "scalar \<Rightarrow> fp" where
  "fp_of_scalar s = (case s of Num v \<Rightarrow> Finite v | NaN \<Rightarrow> NotANumber)"

section \<open>Strings\<close>

text \<open>\<open>s.split(sep)\<close> for a separator of one character.\<close>

fun split_on :: "char \<Rightarrow> string \<Rightarrow> string list" where
  "split_on sep [] = [[]]"
| "split_on sep (x # xs) =
     (if x = sep then [] # split_on sep xs
      else (case split_on sep xs of [] \<Rightarrow> [[x]] | w # ws \<Rightarrow> (x # w) # ws))"

section \<open>The configuration object\<close>

text \<open>
  \<open>lib.config.config\<close> is a tree of named nodes with values at the leaves. A node keeps
  its entries as an association list; attribute access is lookup by name.
\<close>

datatype cfg_value =
    VBool bool
  | VInt int
  | VReal real
  | VStr string
  | VList "cfg_value list"
  | VNode "(string \<times> cfg_value) list"

definition getattr :: "cfg_value \<Rightarrow> string \<Rightarrow> error + cfg_value" where
  "getattr c k =
     (case c of
        VNode kvs \<Rightarrow> (case map_of kvs k of None \<Rightarrow> Inl AttributeError | Some v \<Rightarrow> Inr v)
      | _ \<Rightarrow> Inl AttributeError)"

definition setattr :: "cfg_value \<Rightarrow> string \<Rightarrow> cfg_value \<Rightarrow> error + cfg_value" where
  "setattr c k v =
     (case c of
        VNode kvs \<Rightarrow> Inr (VNode (AList.update k v kvs))
      | _ \<Rightarrow> Inl AttributeError)"

text \<open>\<open>c.k1.k2. ... .kn\<close>: each dot is an attribute read.\<close>

fun getattr_path :: "cfg_value \<Rightarrow> string list \<Rightarrow> error + cfg_value" where
  "getattr_path c [] = Inr c"
| "getattr_path c (k # ks) = err_bind (getattr c k) (\<lambda>child. getattr_path child ks)"

text \<open>
  \<open>c.p1. ... .pn.k = v\<close>: the nodes \<open>p1 ... pn\<close> are read, the last one is assigned to.
  Python mutates that node in place; in the tree the changed node is stored back into its
  parents.
\<close>

fun setattr_path :: "cfg_value \<Rightarrow> string list \<Rightarrow> string \<Rightarrow> cfg_value \<Rightarrow> error + cfg_value" where
  "setattr_path c [] k v = setattr c k v"
| "setattr_path c (p # ps) k v =
     err_bind (getattr c p) (\<lambda>child.
     err_bind (setattr_path child ps k v) (\<lambda>child'.
     setattr c p child'))"

section \<open>\<open>tools/test_net_single_image.py\<close>: \<open>configure_inference\<close>\<close>

text \<open>
  The command line as \<open>argparse\<close> hands it over: \<open>opts.input\<close>, \<open>opts.output\<close>,
  \<open>opts.config_file\<close>, \<open>opts.model\<close> and the trailing \<open>opts.opts\<close>.
\<close>

record opts =
  opts_input :: string
  opts_output :: string
  opts_config_file :: string
  opts_model :: string
  opts_opts :: "string list"

text \<open>
  \<open>merge_from_file\<close> and \<open>merge_from_list\<close> are methods of the configuration object
  and are not among the source files, so \<open>configure_inference\<close> takes them as
  parameters: each maps its argument and the configuration to the merged configuration,
  or raises. The global \<open>config\<close> is passed in and the finalized one is returned.
\<close>

definition configure_inference ::
  "(string \<Rightarrow> cfg_value \<Rightarrow> error + cfg_value) \<Rightarrow> (string list \<Rightarrow> cfg_value \<Rightarrow> error + cfg_value) \<Rightarrow>
   opts \<Rightarrow> cfg_value \<Rightarrow> error + cfg_value" where
  "configure_inference merge_from_file merge_from_list a config =
     err_bind (setattr config ''OUTPUT_DIR'' (VStr (opts_output a))) (\<lambda>c0.
     err_bind (merge_from_file (opts_config_file a) c0) (\<lambda>c1.
     err_bind (merge_from_list (opts_opts a) c1) (\<lambda>c2.
     err_bind (setattr_path c2 [''MODEL'', ''FRUSTUM3D''] ''IS_LEVEL_64'' (VBool False)) (\<lambda>c3.
     err_bind (setattr_path c3 [''MODEL'', ''FRUSTUM3D''] ''IS_LEVEL_128'' (VBool False)) (\<lambda>c4.
     err_bind (setattr_path c4 [''MODEL'', ''FRUSTUM3D''] ''IS_LEVEL_256'' (VBool False)) (\<lambda>c5.
     setattr_path c5 [''MODEL'', ''FRUSTUM3D''] ''FIX'' (VBool True)))))))"

text \<open>
  \<open>main\<close> runs \<open>configure_inference\<close> first and, at its end, hands
  \<open>config.OUTPUT_DIR\<close> to \<open>visualize_results\<close>: this is the directory the export uses.
\<close>

definition main_output_dir ::
  "(string \<Rightarrow> cfg_value \<Rightarrow> error + cfg_value) \<Rightarrow> (string list \<Rightarrow> cfg_value \<Rightarrow> error + cfg_value) \<Rightarrow>
   opts \<Rightarrow> cfg_value \<Rightarrow> error + cfg_value" where
  "main_output_dir merge_from_file merge_from_list a config =
     err_bind (configure_inference merge_from_file merge_from_list a config) (\<lambda>c.
     getattr c ''OUTPUT_DIR'')"

subsection \<open>A concrete pair of merge operations\<close>

text \<open>
  Modelled from the spec: \<open>merge_from_file\<close> and \<open>merge_from_list\<close> of the
  configuration object (\<open>lib/config\<close>, not among the source files). The specification
  gives the override list as a flat list of key/value strings, the merge order as
  "later wins", and the failures \<open>ConfigNotFound\<close> (no file at the path) and
  \<open>ConfigParseError\<close> (malformed content). Here a key is a dotted path, a value
  written \<open>True\<close> or \<open>False\<close> is a boolean and any other value is kept as a string, a
  list of odd length is malformed, and a file is given by its key/value list. These two
  are used to run \<open>configure_inference\<close> on concrete inputs.
\<close>

definition decode_value :: "string \<Rightarrow> cfg_value" where
  "decode_value v = (if v = ''True'' then VBool True else if v = ''False'' then VBool False else VStr v)"

definition set_key :: "string \<Rightarrow> string \<Rightarrow> cfg_value \<Rightarrow> error + cfg_value" where
  "set_key full_key v c =
     (let key_list = split_on CHR ''.'' full_key
      in setattr_path c (butlast key_list) (last key_list) (decode_value v))"

fun spec_merge_from_list :: "string list \<Rightarrow> cfg_value \<Rightarrow> error + cfg_value" where
  "spec_merge_from_list [] c = Inr c"
| "spec_merge_from_list [k] c = Inl ConfigParseError"
| "spec_merge_from_list (k # v # rest) c = err_bind (set_key k v c) (spec_merge_from_list rest)"

definition spec_merge_from_file :: "(string \<rightharpoonup> string list) \<Rightarrow> string \<Rightarrow> cfg_value \<Rightarrow> error + cfg_value" where
  "spec_merge_from_file files path c =
     (case files path of None \<Rightarrow> Inl ConfigNotFound | Some kvs \<Rightarrow> spec_merge_from_list kvs c)"

section \<open>\<open>lib.utils.intrinsics.adjust_intrinsic\<close>\<close>

type_synonym matrix = "real list list"

definition scale_entry :: "matrix \<Rightarrow> nat \<Rightarrow> nat \<Rightarrow> real \<Rightarrow> error + matrix" where
  "scale_entry m i j s =
     (if i < length m \<and> j < length (m ! i) then Inr (m[i := (m ! i)[j := m ! i ! j * s]])
      else Inl IndexError)"

definition entry :: "matrix \<Rightarrow> nat \<Rightarrow> nat \<Rightarrow> error + real" where
  "entry m i j = (if i < length m \<and> j < length (m ! i) then Inr (m ! i ! j) else Inl IndexError)"

text \<open>
  Modelled from the spec: \<open>adjust_intrinsic\<close> of \<open>lib/utils/intrinsics\<close>, which is not
  among the source files. The specification says it rescales an intrinsic matrix from
  one image resolution to another "via proportional scaling of focal length and principal
  point": the focal lengths, entries \<open>(0,0)\<close> and \<open>(1,1)\<close>, and the principal point,
  entries \<open>(0,2)\<close> and \<open>(1,2)\<close>, are multiplied by the ratio of the new to the old width,
  respectively height. Image sizes are (width, height).
\<close>

definition adjust_intrinsic :: "matrix \<Rightarrow> nat \<times> nat \<Rightarrow> nat \<times> nat \<Rightarrow> error + matrix" where
  "adjust_intrinsic intrinsic intrinsic_image_dim image_dim =
     (if fst intrinsic_image_dim = 0 \<or> snd intrinsic_image_dim = 0 then Inl ZeroDivisionError
      else
        let sx = real (fst image_dim) / real (fst intrinsic_image_dim);
            sy = real (snd image_dim) / real (snd intrinsic_image_dim)
        in err_bind (scale_entry intrinsic 0 0 sx) (\<lambda>m1.
           err_bind (scale_entry m1 1 1 sy) (\<lambda>m2.
           err_bind (scale_entry m2 0 2 sx) (\<lambda>m3.
           scale_entry m3 1 2 sy))))"

text \<open>The two sizes and the call in \<open>main\<close>.\<close>

definition color_image_size :: "nat \<times> nat" where
  "color_image_size = (320, 240)"

definition depth_image_size :: "nat \<times> nat" where
  "depth_image_size = (160, 120)"

definition main_front3d_intrinsic :: "matrix \<Rightarrow> error + matrix" where
  "main_front3d_intrinsic front3d_intrinsic =
     adjust_intrinsic front3d_intrinsic color_image_size depth_image_size"

section \<open>Paths\<close>

text \<open>
  \<open>pathlib.Path\<close> on a POSIX system: a path is its root (empty for a relative path,
  one slash, or two slashes when the text starts with exactly two) and its components.
  Parsing drops empty components and the component \<open>.\<close>.
\<close>

datatype posix_path = PosixPath (path_root: string) (path_parts: "string list")

definition splitroot :: "string \<Rightarrow> string \<times> string" where
  "splitroot part =
     (if part \<noteq> [] \<and> hd part = CHR ''/'' then
        let stripped_part = dropWhile (\<lambda>c. c = CHR ''/'') part
        in if length part - length stripped_part = 2 then (''//'', stripped_part)
           else (''/'', stripped_part)
      else ([], part))"

definition Path :: "string \<Rightarrow> posix_path" where
  "Path s =
     (let (r, rel) = splitroot s
      in PosixPath r (filter (\<lambda>x. x \<noteq> [] \<and> x \<noteq> ''.'') (split_on CHR ''/'' rel)))"

text \<open>
  \<open>p / s\<close>: a segment with a root of its own replaces the path; any other segment is
  appended.
\<close>

definition joinpath :: "posix_path \<Rightarrow> string \<Rightarrow> posix_path" where
  "joinpath p s =
     (let q = Path s
      in if path_root q \<noteq> [] then q
         else PosixPath (path_root p) (path_parts p @ path_parts q))"

text \<open>\<open>p.parents\<close>: the directories above \<open>p\<close>, nearest first.\<close>

definition path_parents :: "posix_path \<Rightarrow> posix_path list" where
  "path_parents p =
     map (\<lambda>n. PosixPath (path_root p) (take n (path_parts p))) (rev [0..<length (path_parts p)])"

section \<open>Dense and sparse tensors\<close>

text \<open>
  A dense tensor with its shape: \<open>data\<close> holds the elements in row-major order, one for
  each index tuple of \<open>indices (shape t)\<close>.
\<close>

record 'a tensor =
  shape :: "nat list"
  data :: "'a list"

fun indices :: "nat list \<Rightarrow> nat list list" where
  "indices [] = [[]]"
| "indices (d # ds) = concat (map (\<lambda>i. map ((#) i) (indices ds)) [0..<d])"

text \<open>Reading one element; \<open>None\<close> where the index is outside the tensor.\<close>

definition tensor_at :: "'a tensor \<Rightarrow> nat list \<Rightarrow> 'a option" where
  "tensor_at t idx = map_of (zip (indices (shape t)) (data t)) idx"

text \<open>\<open>t < s\<close> for a number \<open>s\<close>, elementwise.\<close>

definition tensor_lt :: "real tensor \<Rightarrow> real \<Rightarrow> bool tensor" where
  "tensor_lt t s = \<lparr>shape = shape t, data = map (\<lambda>v. v < s) (data t)\<rparr>"

text \<open>\<open>t.squeeze()\<close> removes every dimension of size one; the elements keep their order.\<close>

definition squeeze :: "'a tensor \<Rightarrow> 'a tensor" where
  "squeeze t = \<lparr>shape = filter (\<lambda>d. d \<noteq> 1) (shape t), data = data t\<rparr>"

text \<open>\<open>t.nonzero()\<close>: the index tuples of the true elements, in row-major order.\<close>

definition nonzero :: "bool tensor \<Rightarrow> nat list list" where
  "nonzero t = map fst (filter snd (zip (indices (shape t)) (data t)))"

text \<open>
  A sparse tensor: row \<open>i\<close> of \<open>C\<close> is a coordinate, batch index first, and element
  \<open>i\<close> of \<open>F\<close> is the feature stored there.
\<close>

record sparse_tensor =
  C :: "int list list"
  F :: "real list"

text \<open>\<open>t.C[:, 1:]\<close>: the coordinates without the batch column.\<close>

definition spatial_coordinates :: "sparse_tensor \<Rightarrow> int list list" where
  "spatial_coordinates t = map tl (C t)"

text \<open>
  Modelled from the spec: the method \<open>dense\<close> of the sparse tensors, which belongs to the
  sparse-tensor library and is not among the source files. The specification describes it
  as converting a sparse tensor, "given fixed grid dimensions, a minimum-coordinate origin
  ... and a truncation fill value", into a dense grid "with unseen voxels filled with" the
  default value. The cell at batch \<open>b\<close>, channel \<open>c\<close> and position \<open>xyz\<close> holds the
  feature stored at coordinate \<open>b, min_coordinate + xyz\<close>, or the default value when
  the tensor stores none there. (The source discards the two further results of the
  call.)
\<close>

definition dense_cell :: "sparse_tensor \<Rightarrow> int list \<Rightarrow> real \<Rightarrow> nat list \<Rightarrow> real" where
  "dense_cell t min_coordinate default_value idx =
     (case idx of
        b # c # xyz \<Rightarrow>
          (case map_of (zip (C t) (F t)) (int b # map2 (\<lambda>m x. m + int x) min_coordinate xyz) of
             Some v \<Rightarrow> v
           | None \<Rightarrow> default_value)
      | _ \<Rightarrow> default_value)"

definition dense :: "sparse_tensor \<Rightarrow> nat list \<Rightarrow> int list \<Rightarrow> real \<Rightarrow> real tensor" where
  "dense t dimensions min_coordinate default_value =
     \<lparr>shape = dimensions,
      data = map (dense_cell t min_coordinate default_value) (indices dimensions)\<rparr>"

section \<open>\<open>tools/test_net_single_image.py\<close>: \<open>visualize_results\<close>\<close>

text \<open>
  The results bundle, with the entries \<open>visualize_results\<close> reads:
  \<open>results["frustum"]["geometry"]\<close> is \<open>frustum_geometry\<close>, and the two entries of
  \<open>results["panoptic"]\<close> keep their names; \<open>results["input"]\<close> is \<open>input_image\<close>
  and \<open>results["instance"]\<close> is \<open>instance2d\<close>. The input image and the detections are only
  passed on, so their types are left open.
\<close>

record ('img, 'det) results =
  depth :: "real tensor"
  intrinsic :: matrix
  input_image :: 'img
  instance2d :: 'det
  projection :: sparse_tensor
  frustum_geometry :: sparse_tensor
  panoptic_semantics :: sparse_tensor
  panoptic_instances :: sparse_tensor

text \<open>
  The directory creation and the writers of \<open>lib.visualize\<close> and \<open>DepthMap\<close> act on the
  file system. Each is recorded as the call that is made, with its arguments and its
  destination, in the order of the source. A writer that raises ends the run at its call.
\<close>

datatype ('img, 'det) export_call =
    Mkdir posix_path
  | To_pointcloud "real tensor" matrix posix_path
  | Write_depth "real tensor" matrix posix_path
  | Write_detection_image 'img 'det posix_path
  | Write_pointcloud "int list list" posix_path
  | Write_semantic_pointcloud "int list list" posix_path
  | Write_distance_field "real tensor" "real tensor option" posix_path

text \<open>The directory or file a call acts on.\<close>

fun destination :: "('img, 'det) export_call \<Rightarrow> posix_path" where
  "destination (Mkdir p) = p"
| "destination (To_pointcloud d k p) = p"
| "destination (Write_depth d k p) = p"
| "destination (Write_detection_image i d p) = p"
| "destination (Write_pointcloud ps p) = p"
| "destination (Write_semantic_pointcloud ps p) = p"
| "destination (Write_distance_field g c p) = p"

text \<open>Reading the three values of \<open>config.MODEL.FRUSTUM3D\<close> that the export uses.\<close>

definition as_dimensions :: "cfg_value \<Rightarrow> error + nat list" where
  "as_dimensions v =
     (case v of
        VList vs \<Rightarrow>
          (if list_all (\<lambda>x. case x of VInt i \<Rightarrow> 0 \<le> i | _ \<Rightarrow> False) vs
           then Inr (map (\<lambda>x. case x of VInt i \<Rightarrow> nat i | _ \<Rightarrow> 0) vs)
           else Inl TypeError)
      | _ \<Rightarrow> Inl TypeError)"

definition as_number :: "cfg_value \<Rightarrow> error + real" where
  "as_number v = (case v of VReal r \<Rightarrow> Inr r | VInt i \<Rightarrow> Inr (real_of_int i) | _ \<Rightarrow> Inl TypeError)"

text \<open>
  The right operand of \<open>surface < iso_value\<close>: a tensor is compared with a Python number,
  and a \<open>bool\<close> is the number 0 or 1; any other value raises.
\<close>

definition as_scalar :: "cfg_value \<Rightarrow> error + real" where
  "as_scalar v =
     (case v of
        VReal r \<Rightarrow> Inr r
      | VInt i \<Rightarrow> Inr (real_of_int i)
      | VBool b \<Rightarrow> Inr (if b then 1 else 0)
      | _ \<Rightarrow> Inl TypeError)"

definition frustum3d_value :: "cfg_value \<Rightarrow> string \<Rightarrow> error + cfg_value" where
  "frustum3d_value config k = getattr_path config [''MODEL'', ''FRUSTUM3D'', k]"

definition config_grid_dimensions :: "cfg_value \<Rightarrow> error + nat list" where
  "config_grid_dimensions config = err_bind (frustum3d_value config ''GRID_DIMENSIONS'') as_dimensions"

definition config_truncation :: "cfg_value \<Rightarrow> error + real" where
  "config_truncation config = err_bind (frustum3d_value config ''TRUNCATION'') as_number"

definition config_iso_value :: "cfg_value \<Rightarrow> error + real" where
  "config_iso_value config = err_bind (frustum3d_value config ''ISO_VALUE'') as_scalar"

text \<open>
  The block "Visualize 3D outputs", in the order of the source: the grid dimensions are
  read and put into a size, the truncation and the iso-value are read, and the three
  dense grids are made. The geometry is materialized with \<open>default_value=truncation\<close>,
  which is where a truncation that is no number raises; the two panoptic tensors are
  materialized without that argument, so they are filled with the default of \<open>dense\<close>
  itself, a constant of the sparse-tensor library that is taken as the parameter
  \<open>dense_default\<close>. The iso-value is only read here: it is handed on as it is.
\<close>

definition dense_grids ::
  "real \<Rightarrow> cfg_value \<Rightarrow> ('img, 'det) results \<Rightarrow>
   error + (real tensor \<times> real tensor \<times> real tensor \<times> cfg_value)" where
  "dense_grids dense_default config results =
     err_bind (config_grid_dimensions config) (\<lambda>grid_dimensions.
     err_bind (frustum3d_value config ''TRUNCATION'') (\<lambda>truncation.
     err_bind (frustum3d_value config ''ISO_VALUE'') (\<lambda>iso_value.
     err_bind (as_number truncation) (\<lambda>truncation.
       let dense_dimensions = [1, 1] @ grid_dimensions;
           min_coordinates = [0, 0, 0];
           geometry = frustum_geometry results;
           surface = dense geometry dense_dimensions min_coordinates truncation;
           semantics = dense (panoptic_semantics results) dense_dimensions min_coordinates dense_default;
           instances = dense (panoptic_instances results) dense_dimensions min_coordinates dense_default
       in Inr (surface, semantics, instances, iso_value)))))"

text \<open>
  The three grids together with the iso-value as the number that
  \<open>surface < iso_value\<close> compares with.
\<close>

definition dense_outputs ::
  "real \<Rightarrow> cfg_value \<Rightarrow> ('img, 'det) results \<Rightarrow> error + (real tensor \<times> real tensor \<times> real tensor \<times> real)" where
  "dense_outputs dense_default config results =
     err_bind (dense_grids dense_default config results) (\<lambda>(surface, semantics, instances, iso_value).
     err_bind (as_scalar iso_value) (\<lambda>iso_value.
       Inr (surface, semantics, instances, iso_value)))"

text \<open>\<open>points = (surface < iso_value).squeeze().nonzero()\<close>\<close>

definition surface_points :: "real tensor \<Rightarrow> real \<Rightarrow> int list list" where
  "surface_points surface iso_value = map (map int) (nonzero (squeeze (tensor_lt surface iso_value)))"

text \<open>
  \<open>visualize_results\<close> returns the calls it has made and, when it was stopped by an
  exception of its own, that exception. The first five calls are made before the
  configuration is read, so they are made also when reading it fails. The sparse
  coordinates are written before the surface is compared with the iso-value, so they are
  written also when the iso-value is no number.
\<close>

definition visualize_results ::
  "real \<Rightarrow> cfg_value \<Rightarrow> ('img, 'det) results \<Rightarrow> string \<Rightarrow> ('img, 'det) export_call list \<times> error option" where
  "visualize_results dense_default config results output_path =
     (let output_path = Path output_path;
          depth_map = (squeeze (depth results), intrinsic results);
          first_calls =
            [Mkdir output_path,
             To_pointcloud (fst depth_map) (snd depth_map) (joinpath output_path ''/depth_prediction.ply''),
             Write_depth (fst depth_map) (snd depth_map) (joinpath output_path ''depth_map.png''),
             Write_detection_image (input_image results) (instance2d results)
               (joinpath output_path ''detection.png''),
             Write_pointcloud (spatial_coordinates (projection results))
               (joinpath output_path ''projection.ply'')]
      in case dense_grids dense_default config results of
           Inl e \<Rightarrow> (first_calls, Some e)
         | Inr (surface, semantics, instances, iso_value) \<Rightarrow>
             (let sparse_calls =
                    [Write_pointcloud (spatial_coordinates (frustum_geometry results))
                       (joinpath output_path ''sparse_coordinates.ply'')]
              in case as_scalar iso_value of
                   Inl e \<Rightarrow> (first_calls @ sparse_calls, Some e)
                 | Inr iso_value \<Rightarrow>
                     (let points = surface_points surface iso_value
                      in (first_calls @ sparse_calls @
                          [Write_pointcloud points (joinpath output_path ''points_geometry.ply''),
                           Write_semantic_pointcloud points (joinpath output_path ''surface_pcd.ply''),
                           Write_semantic_pointcloud points (joinpath output_path ''surface_pcd.ply''),
                           Write_distance_field (squeeze surface) None
                             (joinpath output_path ''mesh_geometry.ply''),
                           Write_distance_field (squeeze surface) (Some (squeeze semantics))
                             (joinpath output_path ''mesh_semantics.ply''),
                           Write_distance_field (squeeze surface) (Some (squeeze instances))
                             (joinpath output_path ''mesh_instances.ply'')],
                          None))))"

text \<open>
  The specification's description of the surface points, for comparison with
  \<open>surface_points\<close>: the coordinates \<open>(x, y, z)\<close> of the voxels of a grid of shape
  \<open>(1, 1, X, Y, Z)\<close> whose value is strictly below the iso-value.
\<close>

definition voxels_below :: "real tensor \<Rightarrow> real \<Rightarrow> int list list" where
  "voxels_below grid iso_value =
     (case shape grid of
        [b, c, X, Y, Z] \<Rightarrow>
          concat (map (\<lambda>x. concat (map (\<lambda>y. concat (map (\<lambda>z.
            (case tensor_at grid [0, 0, x, y, z] of
               Some v \<Rightarrow> if v < iso_value then [[int x, int y, int z]] else []
             | None \<Rightarrow> [])) [0..<Z])) [0..<Y])) [0..<X])
      | _ \<Rightarrow> [])"


text \<open>A grid of the given shape with the same value in every cell.\<close>

definition full :: "nat list \<Rightarrow> 'a \<Rightarrow> 'a tensor" where
  "full dimensions fill_value = \<lparr>shape = dimensions, data = replicate (prod_list dimensions) fill_value\<rparr>"

section \<open>Concrete inputs\<close>

text \<open>
  A configuration as the defaults could give it, with the three training levels switched
  on and the fixed mode off, a configuration file and a command line that set these flags
  and the output directory again, and the configuration that \<open>configure_inference\<close>
  returns for them.
\<close>

definition sample_config :: cfg_value where
  "sample_config =
     VNode [(''OUTPUT_DIR'', VStr ''default''),
            (''MODEL'', VNode [(''FRUSTUM3D'', VNode
               [(''IS_LEVEL_64'', VBool True), (''IS_LEVEL_128'', VBool True),
                (''IS_LEVEL_256'', VBool True), (''FIX'', VBool False),
                (''GRID_DIMENSIONS'', VList [VInt 2, VInt 2, VInt 2]),
                (''TRUNCATION'', VReal 3), (''ISO_VALUE'', VReal 1)])])]"

definition sample_files :: "string \<rightharpoonup> string list" where
  "sample_files =
     [''front3d.yaml'' \<mapsto> [''MODEL.FRUSTUM3D.FIX'', ''False'', ''OUTPUT_DIR'', ''from_file'']]"

definition sample_opts :: opts where
  "sample_opts =
     \<lparr>opts_input = ''rgb.png'', opts_output = ''out'', opts_config_file = ''front3d.yaml'',
      opts_model = ''model.pth'',
      opts_opts = [''MODEL.FRUSTUM3D.IS_LEVEL_64'', ''True'', ''OUTPUT_DIR'', ''elsewhere'']\<rparr>"

definition sample_finalized :: cfg_value where
  "sample_finalized =
     VNode [(''OUTPUT_DIR'', VStr ''elsewhere''),
            (''MODEL'', VNode [(''FRUSTUM3D'', VNode
               [(''IS_LEVEL_64'', VBool False), (''IS_LEVEL_128'', VBool False),
                (''IS_LEVEL_256'', VBool False), (''FIX'', VBool True),
                (''GRID_DIMENSIONS'', VList [VInt 2, VInt 2, VInt 2]),
                (''TRUNCATION'', VReal 3), (''ISO_VALUE'', VReal 1)])])]"

text \<open>The same configuration with a grid that is one voxel wide in two directions.\<close>

definition flat_grid_config :: cfg_value where
  "flat_grid_config =
     VNode [(''OUTPUT_DIR'', VStr ''out''),
            (''MODEL'', VNode [(''FRUSTUM3D'', VNode
               [(''IS_LEVEL_64'', VBool False), (''IS_LEVEL_128'', VBool False),
                (''IS_LEVEL_256'', VBool False), (''FIX'', VBool True),
                (''GRID_DIMENSIONS'', VList [VInt 1, VInt 1, VInt 2]),
                (''TRUNCATION'', VReal 3), (''ISO_VALUE'', VReal 4)])])]"

text \<open>
  Two results bundles: one whose geometry stores two voxels, and one whose sparse tensors
  store nothing.
\<close>

definition sample_results :: "(unit, unit) results" where
  "sample_results =
     \<lparr>depth = \<lparr>shape = [1, 1, 1, 2], data = [1, 2]\<rparr>,
      intrinsic = [[1, 0, 0], [0, 1, 0], [0, 0, 1]],
      input_image = (), instance2d = (),
      projection = \<lparr>C = [[0, 0, 0, 1]], F = [1]\<rparr>,
      frustum_geometry = \<lparr>C = [[0, 0, 0, 0], [0, 1, 0, 1]], F = [1 / 2, 1]\<rparr>,
      panoptic_semantics = \<lparr>C = [[0, 0, 0, 0]], F = [7]\<rparr>,
      panoptic_instances = \<lparr>C = [[0, 0, 0, 0]], F = [2]\<rparr>\<rparr>"

definition empty_results :: "(unit, unit) results" where
  "empty_results =
     \<lparr>depth = \<lparr>shape = [1, 1, 1, 2], data = [1, 2]\<rparr>,
      intrinsic = [[1, 0, 0], [0, 1, 0], [0, 0, 1]],
      input_image = (), instance2d = (),
      projection = \<lparr>C = [], F = []\<rparr>,
      frustum_geometry = \<lparr>C = [], F = []\<rparr>,
      panoptic_semantics = \<lparr>C = [], F = []\<rparr>,
      panoptic_instances = \<lparr>C = [], F = []\<rparr>\<rparr>"

section \<open>Properties of \<open>reconstruction_loss\<close>\<close>

lemma elementwise_loss_nonneg: "0 < beta \<Longrightarrow> 0 \<le> elementwise_loss beta d"
  by (simp add: elementwise_loss_def quadratic_branch_def linear_branch_def Let_def)

lemma elementwise_loss_zero_iff: "0 < beta \<Longrightarrow> elementwise_loss beta d = 0 \<longleftrightarrow> d = 0"
  by (auto simp add: elementwise_loss_def quadratic_branch_def linear_branch_def Let_def)

lemma sum_list_nonneg_zero_iff:
  "(\<And>x. x \<in> set xs \<Longrightarrow> 0 \<le> (x::real)) \<Longrightarrow> sum_list xs = 0 \<longleftrightarrow> (\<forall>x\<in>set xs. x = 0)"
  by (induction xs) (auto simp: add_nonneg_eq_0_iff sum_list_nonneg)

lemma map2_sub_zero_iff:
  "length xs = length ys \<Longrightarrow> (\<forall>d\<in>set (map2 (\<lambda>x y. x - y) xs ys). d = (0::real)) \<longleftrightarrow> xs = ys"
  by (induction xs ys rule: list_induct2) auto

text \<open>
  For a positive \<open>beta\<close> the selection between the two arms can be written without a case
  distinction, which shows the loss of one element to be continuous everywhere.
\<close>

lemma elementwise_loss_closed_form:
  assumes "0 < beta"
  shows "elementwise_loss beta = (\<lambda>d. 0.5 * (min \<bar>d\<bar> beta) ^ 2 / beta + (\<bar>d\<bar> - min \<bar>d\<bar> beta))"
proof
  fix d
  show "elementwise_loss beta d = 0.5 * (min \<bar>d\<bar> beta) ^ 2 / beta + (\<bar>d\<bar> - min \<bar>d\<bar> beta)"
  proof (cases "\<bar>d\<bar> < beta")
    case True
    then show ?thesis
      by (simp add: elementwise_loss_def quadratic_branch_def Let_def min_def)
  next
    case False
    then have "min \<bar>d\<bar> beta = beta" by (simp add: min_def)
    then show ?thesis using False assms
      by (simp add: elementwise_loss_def linear_branch_def Let_def power2_eq_square)
  qed
qed

lemma isCont_elementwise_loss: "0 < beta \<Longrightarrow> isCont (elementwise_loss beta) d"
  unfolding elementwise_loss_closed_form by (intro continuous_intros) simp

text \<open>
  Claim C2. For every \<open>beta > 0\<close> the quadratic and the linear arm of the loss agree where
  \<open>|input - target| = beta\<close>: \<open>0.5 * beta\<^sup>2 / beta\<close> and \<open>beta - 0.5 * beta\<close> are both
  \<open>0.5 * beta\<close>. The loss of one element takes this value at a difference of \<open>beta\<close> and
  of \<open>- beta\<close>, and is continuous at both.
\<close>

theorem reconstruction_loss_branches_agree:
  assumes "0 < beta"
  shows "quadratic_branch beta beta = 0.5 * beta \<and> linear_branch beta beta = 0.5 * beta \<and>
         elementwise_loss beta beta = 0.5 * beta \<and> elementwise_loss beta (- beta) = 0.5 * beta \<and>
         isCont (elementwise_loss beta) beta \<and> isCont (elementwise_loss beta) (- beta)"
proof -
  have q: "quadratic_branch beta beta = 0.5 * beta"
    using assms by (simp add: quadratic_branch_def power2_eq_square)
  have l: "linear_branch beta beta = 0.5 * beta"
    by (simp add: linear_branch_def)
  have e: "elementwise_loss beta beta = 0.5 * beta" "elementwise_loss beta (- beta) = 0.5 * beta"
    using assms by (simp_all add: elementwise_loss_def linear_branch_def Let_def)
  show ?thesis
    using q l e isCont_elementwise_loss [OF assms] by simp
qed

theorem reconstruction_loss_branches_agree_witness:
  "(0::real) < 1 / 9 \<and>
   quadratic_branch (1 / 9) (1 / 9) = 0.5 * (1 / 9) \<and> linear_branch (1 / 9) (1 / 9) = 0.5 * (1 / 9) \<and>
   elementwise_loss (1 / 9) (1 / 9) = 0.5 * (1 / 9) \<and> elementwise_loss (1 / 9) (- (1 / 9)) = 0.5 * (1 / 9) \<and>
   isCont (elementwise_loss (1 / 9)) (1 / 9) \<and> isCont (elementwise_loss (1 / 9)) (- (1 / 9))"
proof -
  have h: "(0::real) < 1 / 9" by simp
  show ?thesis using h reconstruction_loss_branches_agree [OF h] by simp
qed

text \<open>
  The formula itself, over the real numbers: for \<open>beta > 0\<close> the loss of two tensors of
  one length is not below zero, and it is zero exactly when the two tensors are equal
  (the mean of a tensor without elements apart, which has no value). This is a fact about
  the exact model only; what remains of it under rounding is the subject of the next
  section.
\<close>

lemma exact_loss_nonneg_zero_iff:
  assumes "0 < beta" and "length input = length target" and "size_average \<longrightarrow> input \<noteq> []"
  shows "result_nonneg (reconstruction_loss input target beta size_average) \<and>
         (result_is_zero (reconstruction_loss input target beta size_average) \<longleftrightarrow> input = target)"
proof -
  let ?diff = "map2 (\<lambda>x y. x - y) input target"
  let ?loss = "map (elementwise_loss beta) ?diff"
  have nn: "\<And>x. x \<in> set ?loss \<Longrightarrow> 0 \<le> x"
    using assms(1) by (auto simp: elementwise_loss_nonneg)
  have s0: "0 \<le> sum_list ?loss" using nn by (rule sum_list_nonneg)
  have z: "sum_list ?loss = 0 \<longleftrightarrow> input = target"
  proof -
    have "sum_list ?loss = 0 \<longleftrightarrow> (\<forall>x\<in>set ?loss. x = 0)"
      using nn by (rule sum_list_nonneg_zero_iff)
    also have "\<dots> \<longleftrightarrow> (\<forall>d\<in>set ?diff. d = 0)"
      using assms(1) by (simp add: elementwise_loss_zero_iff)
    also have "\<dots> \<longleftrightarrow> input = target"
      using assms(2) by (rule map2_sub_zero_iff)
    finally show ?thesis .
  qed
  have ne: "size_average \<Longrightarrow> ?loss \<noteq> []"
    using assms(2,3) by (cases input; cases target) auto
  show ?thesis
  proof (cases size_average)
    case True
    have len: "0 < real (length ?loss)" using ne [OF True] by simp
    show ?thesis using True assms(2) ne s0 z len
      by (simp add: reconstruction_loss_def tensor_sub_def err_bind_def tensor_mean_def
          result_nonneg_def result_is_zero_def scalar_nonneg_def scalar_is_zero_def Let_def)
  next
    case False
    then show ?thesis using assms(2) s0 z
      by (simp add: reconstruction_loss_def tensor_sub_def err_bind_def tensor_sum_def
          result_nonneg_def result_is_zero_def scalar_nonneg_def scalar_is_zero_def Let_def)
  qed
qed

text \<open>
  Claim C5, as stated: for every \<open>beta \<le> 0\<close> the loss fails with an error of the kind
  \<open>InvalidArgument\<close> and returns no value. The function does not look at the sign of
  \<open>beta\<close>: with \<open>beta = 0\<close> it returns the plain absolute difference.
\<close>

theorem reconstruction_loss_nonpositive_beta_counterexample:
  "reconstruction_loss [1] [0] 0 True = Inr (Num 1) \<and>
   reconstruction_loss [1] [0] 0 True \<noteq> Inl InvalidArgument"
  by (simp add: reconstruction_loss_def tensor_sub_def err_bind_def tensor_mean_def
      elementwise_loss_def linear_branch_def)

text \<open>
  Claim C5, amended: for every \<open>beta \<le> 0\<close> the loss of two equal-shaped tensors raises
  nothing and returns a value: no element satisfies \<open>|diff| < beta\<close>, so every element
  takes the linear arm \<open>|diff| - 0.5 * beta\<close>, and the result is the mean, or the sum, of
  these.
\<close>

theorem reconstruction_loss_nonpositive_beta:
  assumes "beta \<le> 0" and "length input = length target"
  shows "reconstruction_loss input target beta size_average =
     Inr ((if size_average then tensor_mean else tensor_sum)
            (map2 (\<lambda>x y. \<bar>x - y\<bar> - 0.5 * beta) input target))"
proof -
  have lin: "elementwise_loss beta = (\<lambda>d. \<bar>d\<bar> - 0.5 * beta)"
    using assms(1) by (intro ext) (auto simp add: elementwise_loss_def linear_branch_def Let_def)
  have "map (elementwise_loss beta) (map2 (\<lambda>x y. x - y) input target) =
        map2 (\<lambda>x y. \<bar>x - y\<bar> - 0.5 * beta) input target"
    unfolding lin by (simp add: comp_def split_def)
  then show ?thesis using assms(2)
    by (simp add: reconstruction_loss_def tensor_sub_def err_bind_def Let_def del: map_map)
qed

theorem reconstruction_loss_nonpositive_beta_witness:
  "(- 2 :: real) \<le> 0 \<and> length [1, 3 :: real] = length [0, 1 :: real] \<and>
   reconstruction_loss [1, 3] [0, 1] (- 2) False = Inr (Num 5)"
  using reconstruction_loss_nonpositive_beta [of "- 2" "[1, 3]" "[0, 1]" False]
  by (simp add: tensor_sum_def)

section \<open>Properties of \<open>reconstruction_loss\<close> in floating-point arithmetic\<close>

subsection \<open>Rounding\<close>

text \<open>
  What follows from the two properties of a rounding function: an operation on operands
  that are not below zero has a result that is not below zero and is not \<open>nan\<close>, and
  an operation whose exact result is zero returns zero.
\<close>

lemma rounding_zero: "rounding rnd \<Longrightarrow> rnd 0 = Finite 0"
  by (simp add: rounding_def)

lemma rounding_mono: "rounding rnd \<Longrightarrow> x \<le> y \<Longrightarrow> fp_le (rnd x) (rnd y)"
  by (simp add: rounding_def)

lemma rounding_nonneg: "rounding rnd \<Longrightarrow> 0 \<le> x \<Longrightarrow> fp_le (Finite 0) (rnd x)"
  using rounding_mono [of rnd 0 x] by (simp add: rounding_zero)

lemma fp_le_zero_cases:
  "fp_le (Finite 0) a \<longleftrightarrow> a = PosInf \<or> (\<exists>v. a = Finite v \<and> 0 \<le> v)"
  by (cases a) (simp_all add: fp_le_def)

lemma rounding_not_nan: "rounding rnd \<Longrightarrow> rnd x \<noteq> NotANumber"
  using rounding_mono [of rnd x x] by (auto simp: fp_le_def)

lemma fp_add_nonneg:
  assumes "rounding rnd" and "fp_le (Finite 0) a" and "fp_le (Finite 0) b"
  shows "fp_le (Finite 0) (fp_add rnd a b)"
proof -
  from assms(2) consider "a = PosInf" | v where "a = Finite v" "0 \<le> v"
    by (auto simp: fp_le_zero_cases)
  then show ?thesis
  proof cases
    case 1
    then show ?thesis using assms(3) by (auto simp: fp_le_zero_cases)
  next
    case a: 2
    from assms(3) consider "b = PosInf" | w where "b = Finite w" "0 \<le> w"
      by (auto simp: fp_le_zero_cases)
    then show ?thesis
    proof cases
      case 1
      then show ?thesis using a by (simp add: fp_le_def)
    next
      case 2
      then show ?thesis using a rounding_nonneg [OF assms(1), of "v + w"] by simp
    qed
  qed
qed

lemma fp_mul_nonneg:
  assumes "rounding rnd" and "fp_le (Finite 0) a"
  shows "fp_le (Finite 0) (fp_mul rnd a a)"
proof -
  from assms(2) consider "a = PosInf" | v where "a = Finite v" "0 \<le> v"
    by (auto simp: fp_le_zero_cases)
  then show ?thesis
  proof cases
    case 1
    then show ?thesis by (simp add: fp_le_def)
  next
    case 2
    then show ?thesis using rounding_nonneg [OF assms(1), of "v * v"] by simp
  qed
qed

lemma fp_half_nonneg:
  assumes "rounding rnd" and "fp_le (Finite 0) a"
  shows "fp_le (Finite 0) (fp_mul rnd (Finite (1 / 2)) a)"
proof -
  from assms(2) consider "a = PosInf" | v where "a = Finite v" "0 \<le> v"
    by (auto simp: fp_le_zero_cases)
  then show ?thesis
  proof cases
    case 1
    then show ?thesis by (simp add: fp_le_def fp_negative_def)
  next
    case 2
    then show ?thesis using rounding_nonneg [OF assms(1), of "1 / 2 * v"] by simp
  qed
qed

lemma fp_div_nonneg:
  assumes "rounding rnd" and "fp_le (Finite 0) a" and "0 < b"
  shows "fp_le (Finite 0) (fp_div rnd a (Finite b))"
proof -
  from assms(2) consider "a = PosInf" | v where "a = Finite v" "0 \<le> v"
    by (auto simp: fp_le_zero_cases)
  then show ?thesis
  proof cases
    case 1
    then show ?thesis using assms(3) by (simp add: fp_le_def fp_negative_def)
  next
    case 2
    then show ?thesis using assms(3) rounding_nonneg [OF assms(1), of "v / b"] by simp
  qed
qed

lemma elementwise_loss_fp_nonneg:
  assumes r: "rounding rnd" and b: "0 < beta" and f: "rnd beta \<noteq> PosInf" and d: "d \<noteq> NotANumber"
  shows "fp_le (Finite 0) (elementwise_loss_fp rnd beta d)"
proof -
  let ?n = "fp_abs d"
  have n: "fp_le (Finite 0) ?n" using d by (cases d) (simp_all add: fp_abs_def fp_le_def)
  from rounding_nonneg [OF r, of beta] b f obtain bf where bf: "rnd beta = Finite bf" "0 \<le> bf"
    by (auto simp: fp_le_zero_cases)
  have "fp_le (Finite 0) (rnd (1 / 2 * beta))" using rounding_nonneg [OF r, of "1 / 2 * beta"] b by simp
  moreover have "fp_le (rnd (1 / 2 * beta)) (rnd beta)" using rounding_mono [OF r, of "1 / 2 * beta" beta] b by simp
  ultimately obtain h where h: "rnd (1 / 2 * beta) = Finite h" "0 \<le> h" "h \<le> bf"
    using bf by (cases "rnd (1 / 2 * beta)") (auto simp: fp_le_def)
  show ?thesis
  proof (cases "fp_lt ?n (rnd beta)")
    case True
    with n bf have pos: "0 < bf" by (auto simp: fp_le_zero_cases fp_lt_def)
    have "fp_le (Finite 0) (fp_div rnd (fp_mul rnd (Finite (1 / 2)) (fp_mul rnd ?n ?n)) (Finite bf))"
      by (intro fp_div_nonneg fp_half_nonneg fp_mul_nonneg r n pos)
    then show ?thesis using True bf by (simp add: elementwise_loss_fp_def Let_def)
  next
    case False
    from n consider "?n = PosInf" | v where "?n = Finite v" "0 \<le> v" by (auto simp: fp_le_zero_cases)
    then have "fp_le (Finite 0) (fp_sub rnd ?n (Finite h))"
    proof cases
      case 1
      then show ?thesis by (simp add: fp_sub_def fp_neg_def fp_le_def)
    next
      case 2
      with False bf have "bf \<le> v" by (simp add: fp_lt_def)
      then have "0 \<le> v - h" using h by simp
      then show ?thesis using 2 rounding_nonneg [OF r, of "v - h"] by (simp add: fp_sub_def fp_neg_def)
    qed
    then show ?thesis using False h by (simp add: elementwise_loss_fp_def Let_def)
  qed
qed

lemma elementwise_loss_fp_zero:
  assumes r: "rounding rnd" and b: "0 < beta" and f: "rnd beta \<noteq> PosInf"
  shows "elementwise_loss_fp rnd beta (Finite 0) = Finite 0"
proof -
  from rounding_nonneg [OF r, of beta] b f obtain bf where bf: "rnd beta = Finite bf" "0 \<le> bf"
    by (auto simp: fp_le_zero_cases)
  have "fp_le (Finite 0) (rnd (1 / 2 * beta))" using rounding_nonneg [OF r, of "1 / 2 * beta"] b by simp
  moreover have "fp_le (rnd (1 / 2 * beta)) (rnd beta)" using rounding_mono [OF r, of "1 / 2 * beta" beta] b by simp
  ultimately obtain h where h: "rnd (1 / 2 * beta) = Finite h" "0 \<le> h" "h \<le> bf"
    using bf by (cases "rnd (1 / 2 * beta)") (auto simp: fp_le_def)
  show ?thesis
  proof (cases "0 < bf")
    case True
    then show ?thesis
      using bf by (simp add: elementwise_loss_fp_def Let_def fp_abs_def fp_lt_def rounding_zero [OF r])
  next
    case False
    then have "bf = 0" "h = 0" using bf h by auto
    then show ?thesis
      using bf h by (simp add: elementwise_loss_fp_def Let_def fp_abs_def fp_lt_def fp_sub_def fp_neg_def
          rounding_zero [OF r])
  qed
qed

lemma fp_cast_nonneg:
  assumes "rounding rnd" and "fp_le (Finite 0) a"
  shows "fp_le (Finite 0) (fp_cast rnd a)"
proof -
  from assms(2) consider "a = PosInf" | v where "a = Finite v" "0 \<le> v"
    by (auto simp: fp_le_zero_cases)
  then show ?thesis
  proof cases
    case 1
    then show ?thesis by (simp add: fp_cast_def fp_le_def)
  next
    case 2
    then show ?thesis using rounding_nonneg [OF assms(1), of v] by (simp add: fp_cast_def)
  qed
qed

lemma reduction_of_positions:
  assumes "reduction_of n order"
  shows "set (positions order) = {0..<n}"
proof -
  have "set (positions order) = set (sort (positions order))" by simp
  also have "\<dots> = {0..<n}" using assms unfolding reduction_of_def by (simp only: set_upt)
  finally show ?thesis .
qed

lemma reduce_fp_nonneg:
  assumes "rounding acc" and "\<And>i. i \<in> set (positions order) \<Longrightarrow> fp_le (Finite 0) (xs ! i)"
  shows "fp_le (Finite 0) (reduce_fp acc xs order)"
  using assms(2)
proof (induction order)
  case Initial
  then show ?case by (simp add: fp_le_def)
next
  case (Element i)
  then show ?case by simp
next
  case (Combine s t)
  have "fp_le (Finite 0) (reduce_fp acc xs s)" "fp_le (Finite 0) (reduce_fp acc xs t)"
    using Combine by simp_all
  then show ?case using fp_add_nonneg [OF assms(1)] by simp
qed

lemma reduce_fp_zero:
  assumes "rounding acc" and "\<And>i. i \<in> set (positions order) \<Longrightarrow> xs ! i = Finite 0"
  shows "reduce_fp acc xs order = Finite 0"
  using assms(2)
proof (induction order)
  case Initial
  then show ?case by simp
next
  case (Element i)
  then show ?case by simp
next
  case (Combine s t)
  have "reduce_fp acc xs s = Finite 0" "reduce_fp acc xs t = Finite 0"
    using Combine by simp_all
  then show ?case by (simp add: rounding_zero [OF assms(1)])
qed

lemma tensor_sum_fp_nonneg:
  assumes "rounding acc" and "rounding rnd" and "reduction_of (length xs) order"
    and "\<And>x. x \<in> set xs \<Longrightarrow> fp_le (Finite 0) x"
  shows "fp_le (Finite 0) (tensor_sum_fp acc rnd order xs)"
proof -
  have "fp_le (Finite 0) (xs ! i)" if "i \<in> set (positions order)" for i
    using that reduction_of_positions [OF assms(3)] assms(4) by simp
  then have "fp_le (Finite 0) (reduce_fp acc xs order)"
    using assms(1) by (intro reduce_fp_nonneg)
  then show ?thesis unfolding tensor_sum_fp_def using assms(2) by (intro fp_cast_nonneg)
qed

lemma tensor_sum_fp_zero:
  assumes "rounding acc" and "rounding rnd" and "reduction_of (length xs) order"
    and "\<And>x. x \<in> set xs \<Longrightarrow> x = Finite 0"
  shows "tensor_sum_fp acc rnd order xs = Finite 0"
proof -
  have "xs ! i = Finite 0" if "i \<in> set (positions order)" for i
    using that reduction_of_positions [OF assms(3)] assms(4) by simp
  then have "reduce_fp acc xs order = Finite 0"
    using assms(1) by (intro reduce_fp_zero)
  then show ?thesis by (simp add: tensor_sum_fp_def fp_cast_def rounding_zero [OF assms(2)])
qed

text \<open>Adding from left to right is a reduction of a tensor of any size.\<close>

lemma positions_left_to_right:
  "positions (foldl (\<lambda>s i. Combine s (Element i)) s0 is) = positions s0 @ is"
  by (induction "is" arbitrary: s0) simp_all

lemma reduction_of_left_to_right: "reduction_of n (left_to_right n)"
  by (simp add: reduction_of_def left_to_right_def positions_left_to_right sorted_sort_id)

lemma reduce_fp_left_to_right:
  "reduce_fp acc xs (foldl (\<lambda>s i. Combine s (Element i)) s0 is) =
     foldl (fp_add acc) (reduce_fp acc xs s0) (map (\<lambda>i. xs ! i) is)"
  by (induction "is" arbitrary: s0) simp_all

lemma tensor_sum_fp_left_to_right:
  "tensor_sum_fp acc rnd (left_to_right (length xs)) xs = fp_cast rnd (foldl (fp_add acc) (Finite 0) xs)"
  by (simp add: tensor_sum_fp_def left_to_right_def reduce_fp_left_to_right map_nth)

lemma fp_sub_finite_not_nan:
  assumes "rounding rnd" and "fp_finite a" and "fp_finite b"
  shows "fp_sub rnd a b \<noteq> NotANumber"
proof -
  from assms(2,3) obtain x y where "a = Finite x" "b = Finite y"
    by (cases a; cases b) (simp_all add: fp_finite_def)
  then show ?thesis using rounding_not_nan [OF assms(1)] by (simp add: fp_sub_def fp_neg_def)
qed

lemma fp_sub_self:
  assumes "rounding rnd" and "fp_finite a"
  shows "fp_sub rnd a a = Finite 0"
proof -
  from assms(2) obtain x where "a = Finite x" by (cases a) (simp_all add: fp_finite_def)
  then show ?thesis using rounding_zero [OF assms(1)] by (simp add: fp_sub_def fp_neg_def)
qed

subsection \<open>The floating-point model without rounding is the exact model\<close>

lemma rounding_exact: "rounding Finite"
  by (simp add: rounding_def fp_le_def)

lemma sum_list_map_insort:
  "sum_list (map f (insort x xs)) = (f x :: real) + sum_list (map f xs)"
  by (induction xs) simp_all

lemma sum_list_map_sort: "sum_list (map f (sort xs)) = (sum_list (map f xs) :: real)"
  by (induction xs) (simp_all add: sum_list_map_insort)

lemma reduce_fp_exact:
  assumes "\<And>i. i \<in> set (positions order) \<Longrightarrow> i < length xs"
  shows "reduce_fp Finite (map Finite xs) order = Finite (sum_list (map (\<lambda>i. xs ! i) (positions order)))"
  using assms by (induction order) simp_all

lemma tensor_sum_fp_exact:
  assumes "reduction_of (length xs) order"
  shows "tensor_sum_fp Finite Finite order (map Finite xs) = Finite (sum_list xs)"
proof -
  have "sum_list (map (\<lambda>i. xs ! i) (positions order)) = sum_list (map (\<lambda>i. xs ! i) (sort (positions order)))"
    by (simp only: sum_list_map_sort)
  also have "\<dots> = sum_list xs"
    using assms by (simp add: reduction_of_def map_nth)
  finally have "sum_list (map (\<lambda>i. xs ! i) (positions order)) = sum_list xs" .
  moreover have "reduce_fp Finite (map Finite xs) order =
      Finite (sum_list (map (\<lambda>i. xs ! i) (positions order)))"
    using reduction_of_positions [OF assms] by (intro reduce_fp_exact) simp
  ultimately show ?thesis by (simp add: tensor_sum_fp_def fp_cast_def)
qed

lemma elementwise_loss_fp_exact:
  "elementwise_loss_fp Finite beta (Finite d) = Finite (elementwise_loss beta d)"
  by (simp add: elementwise_loss_fp_def elementwise_loss_def quadratic_branch_def linear_branch_def
      Let_def fp_abs_def fp_lt_def fp_sub_def fp_neg_def power2_eq_square)

lemma reconstruction_loss_fp_exact:
  assumes "length input = length target" and "reduction_of (length input) order"
  shows "reconstruction_loss_fp Finite Finite order (map Finite input) (map Finite target) beta size_average =
         map_sum id fp_of_scalar (reconstruction_loss input target beta size_average)"
proof -
  let ?loss = "map (elementwise_loss beta) (map2 (\<lambda>x y. x - y) input target)"
  have d: "map2 (fp_sub Finite) (map Finite input) (map Finite target) =
      map Finite (map2 (\<lambda>x y. x - y) input target)"
    using assms(1) by (induction input target rule: list_induct2) (simp_all add: fp_sub_def fp_neg_def)
  have l: "map (elementwise_loss_fp Finite beta) (map Finite (map2 (\<lambda>x y. x - y) input target)) =
      map Finite ?loss"
    by (simp add: elementwise_loss_fp_exact)
  have o: "reduction_of (length ?loss) order" using assms by simp
  have s: "tensor_sum_fp Finite Finite order (map Finite ?loss) = Finite (sum_list ?loss)"
    using o by (rule tensor_sum_fp_exact)
  have m: "tensor_mean_fp Finite Finite order (map Finite ?loss) = fp_of_scalar (tensor_mean ?loss)"
  proof (cases "?loss = []")
    case True
    then have "sum_list ?loss = 0" by (simp only: sum_list.Nil)
    then show ?thesis
      using True s by (simp only: tensor_mean_fp_def tensor_mean_def fp_of_scalar_def) simp
  next
    case False
    then show ?thesis
      using s by (simp only: tensor_mean_fp_def tensor_mean_def fp_of_scalar_def) simp
  qed
  have r1: "reconstruction_loss_fp Finite Finite order (map Finite input) (map Finite target) beta size_average =
      Inr (if size_average then tensor_mean_fp Finite Finite order (map Finite ?loss)
           else tensor_sum_fp Finite Finite order (map Finite ?loss))"
    using assms(1)
    by (simp add: reconstruction_loss_fp_def tensor_sub_fp_def err_bind_def Let_def d l del: map_map)
  have r2: "reconstruction_loss input target beta size_average =
      Inr (if size_average then tensor_mean ?loss else tensor_sum ?loss)"
    using assms(1) by (simp add: reconstruction_loss_def tensor_sub_def err_bind_def Let_def)
  show ?thesis
    unfolding r1 r2 by (simp add: m s tensor_sum_def fp_of_scalar_def del: map_map)
qed

subsection \<open>The rounding of \<open>float32\<close>\<close>

text \<open>Rounding to \<open>float32\<close> keeps zero and the order.\<close>

lemma round_half_even_of_int: "round_half_even (of_int k) = k"
  by (simp add: round_half_even_def)

lemma round_half_even_bounds: "\<lfloor>y\<rfloor> \<le> round_half_even y" "round_half_even y \<le> \<lfloor>y\<rfloor> + 1"
  by (simp_all add: round_half_even_def Let_def)

lemma round_half_even_mono:
  assumes "y1 \<le> y2"
  shows "round_half_even y1 \<le> round_half_even y2"
proof (cases "\<lfloor>y1\<rfloor> = \<lfloor>y2\<rfloor>")
  case True
  then show ?thesis using assms by (auto simp: round_half_even_def Let_def)
next
  case False
  then have "\<lfloor>y1\<rfloor> + 1 \<le> \<lfloor>y2\<rfloor>" using floor_mono [OF assms] by simp
  then show ?thesis
    using round_half_even_bounds(2) [of y1] round_half_even_bounds(1) [of y2] by linarith
qed

lemma floor_log2_le:
  assumes "0 < a"
  shows "2 powr of_int \<lfloor>log 2 a\<rfloor> \<le> a"
proof -
  have "2 powr of_int \<lfloor>log 2 a\<rfloor> \<le> 2 powr log 2 a"
    by (intro powr_mono) simp_all
  then show ?thesis using assms by simp
qed

lemma floor_log2_gt:
  assumes "0 < a"
  shows "a < 2 powr of_int (\<lfloor>log 2 a\<rfloor> + 1)"
proof -
  have "log 2 a < of_int (\<lfloor>log 2 a\<rfloor> + 1)" by linarith
  then have "2 powr log 2 a < 2 powr of_int (\<lfloor>log 2 a\<rfloor> + 1)"
    by (intro powr_less_mono) simp_all
  then show ?thesis using assms by simp
qed

lemma exponent32_mono:
  assumes "0 < a" and "a \<le> b"
  shows "exponent32 a \<le> exponent32 b"
proof -
  have "log 2 a \<le> log 2 b" using assms by simp
  then have "\<lfloor>log 2 a\<rfloor> \<le> \<lfloor>log 2 b\<rfloor>" by (rule floor_mono)
  then show ?thesis by (simp add: exponent32_def)
qed

lemma ulp32_pos: "0 < ulp32 a"
  by (simp add: ulp32_def)

lemma magnitude32_zero: "magnitude32 0 = 0"
  by (simp add: magnitude32_def round_half_even_def)

lemma magnitude32_nonneg:
  assumes "0 \<le> a"
  shows "0 \<le> magnitude32 a"
proof -
  have "0 \<le> a / ulp32 a" using assms ulp32_pos [of a] by simp
  then have "round_half_even 0 \<le> round_half_even (a / ulp32 a)" by (rule round_half_even_mono)
  then have "0 \<le> round_half_even (a / ulp32 a)" using round_half_even_of_int [of 0] by simp
  then show ?thesis using ulp32_pos [of a] by (simp add: magnitude32_def)
qed

lemma magnitude32_le:
  assumes "0 < a"
  shows "magnitude32 a \<le> 2 powr of_int (exponent32 a + 1)"
proof -
  have "a < 2 powr of_int (\<lfloor>log 2 a\<rfloor> + 1)" using assms by (rule floor_log2_gt)
  also have "\<dots> \<le> 2 powr of_int (exponent32 a + 1)"
    by (intro powr_mono) (simp_all add: exponent32_def)
  finally have "a / ulp32 a \<le> 2 powr of_int (exponent32 a + 1) / ulp32 a"
    using ulp32_pos [of a] by (simp add: divide_right_mono)
  also have "\<dots> = 2 powr 24"
    by (simp add: ulp32_def powr_diff [symmetric])
  also have "\<dots> = of_int (2 ^ 24)" by simp
  finally have "round_half_even (a / ulp32 a) \<le> round_half_even (of_int (2 ^ 24))"
    by (rule round_half_even_mono)
  then have "round_half_even (a / ulp32 a) \<le> 2 ^ 24" by (simp only: round_half_even_of_int)
  then have "of_int (round_half_even (a / ulp32 a)) \<le> (2 powr 24 :: real)"
    by (metis of_int_le_iff of_int_numeral of_int_power powr_numeral zero_less_numeral numeral_powr_numeral_real)
  then have "magnitude32 a \<le> ulp32 a * 2 powr 24"
    using ulp32_pos [of a] by (simp add: magnitude32_def)
  also have "\<dots> = 2 powr (of_int (exponent32 a - 23) + 24)"
    by (simp only: ulp32_def powr_add)
  also have "of_int (exponent32 a - 23) + 24 = (of_int (exponent32 a + 1) :: real)" by simp
  finally show ?thesis .
qed

lemma magnitude32_ge:
  assumes "0 < a" and "- 126 \<le> \<lfloor>log 2 a\<rfloor>"
  shows "2 powr of_int (exponent32 a) \<le> magnitude32 a"
proof -
  have e: "exponent32 a = \<lfloor>log 2 a\<rfloor>" using assms(2) by (simp add: exponent32_def)
  have "2 powr of_int (exponent32 a) \<le> a" unfolding e using assms(1) by (rule floor_log2_le)
  then have "2 powr of_int (exponent32 a) / ulp32 a \<le> a / ulp32 a"
    using ulp32_pos [of a] by (simp add: divide_right_mono)
  moreover have "2 powr of_int (exponent32 a) / ulp32 a = of_int (2 ^ 23)"
    by (simp add: ulp32_def powr_diff [symmetric])
  ultimately have "round_half_even (of_int (2 ^ 23)) \<le> round_half_even (a / ulp32 a)"
    by (simp only: round_half_even_mono)
  then have "2 ^ 23 \<le> round_half_even (a / ulp32 a)" by (simp only: round_half_even_of_int)
  then have "(2 powr 23 :: real) \<le> of_int (round_half_even (a / ulp32 a))"
    by (metis of_int_le_iff of_int_numeral of_int_power powr_numeral zero_less_numeral numeral_powr_numeral_real)
  then have "ulp32 a * 2 powr 23 \<le> magnitude32 a"
    using ulp32_pos [of a] by (simp add: magnitude32_def)
  moreover have "ulp32 a * 2 powr 23 = 2 powr (of_int (exponent32 a - 23) + 23)"
    by (simp only: ulp32_def powr_add)
  moreover have "of_int (exponent32 a - 23) + 23 = (of_int (exponent32 a) :: real)" by simp
  ultimately show ?thesis by (simp only:)
qed


lemma magnitude32_mono:
  assumes "0 \<le> a" and "a \<le> b"
  shows "magnitude32 a \<le> magnitude32 b"
proof (cases "a = 0")
  case True
  then show ?thesis using magnitude32_nonneg [of b] assms by (simp add: magnitude32_zero)
next
  case False
  then have a: "0 < a" and b: "0 < b" using assms by simp_all
  have le: "exponent32 a \<le> exponent32 b" using a assms(2) by (rule exponent32_mono)
  show ?thesis
  proof (cases "exponent32 a = exponent32 b")
    case True
    then have u: "ulp32 a = ulp32 b" by (simp add: ulp32_def)
    have "a / ulp32 b \<le> b / ulp32 b" using assms(2) ulp32_pos [of b] by (simp add: divide_right_mono)
    then have "round_half_even (a / ulp32 b) \<le> round_half_even (b / ulp32 b)"
      by (rule round_half_even_mono)
    then show ?thesis using ulp32_pos [of b] by (simp add: magnitude32_def u)
  next
    case False
    then have lt: "exponent32 a + 1 \<le> exponent32 b" using le by simp
    then have "- 126 < exponent32 b" by (simp add: exponent32_def)
    then have fb: "- 126 \<le> \<lfloor>log 2 b\<rfloor>" by (simp add: exponent32_def max_def split: if_splits)
    have "magnitude32 a \<le> 2 powr of_int (exponent32 a + 1)" using a by (rule magnitude32_le)
    also have "\<dots> \<le> 2 powr of_int (exponent32 b)" using lt by (intro powr_mono) simp_all
    also have "\<dots> \<le> magnitude32 b" using b fb by (rule magnitude32_ge)
    finally show ?thesis .
  qed
qed

lemma rounding_round32: "rounding round32"
  unfolding rounding_def
proof (intro conjI allI impI)
  show "round32 0 = Finite 0" by (simp add: round32_def magnitude32_zero)
next
  fix x y :: real
  assume xy: "x \<le> y"
  consider "0 \<le> x" | "x < 0" "0 \<le> y" | "y < 0" by linarith
  then show "fp_le (round32 x) (round32 y)"
  proof cases
    case 1
    then have "magnitude32 \<bar>x\<bar> \<le> magnitude32 \<bar>y\<bar>" using xy by (intro magnitude32_mono) simp_all
    then show ?thesis using 1 xy by (simp add: round32_def Let_def fp_le_def)
  next
    case 2
    have "0 \<le> magnitude32 \<bar>x\<bar>" "0 \<le> magnitude32 \<bar>y\<bar>" by (simp_all add: magnitude32_nonneg)
    then show ?thesis using 2 by (simp add: round32_def Let_def fp_le_def)
  next
    case 3
    then have "magnitude32 \<bar>y\<bar> \<le> magnitude32 \<bar>x\<bar>" using xy by (intro magnitude32_mono) simp_all
    then show ?thesis using 3 xy by (simp add: round32_def Let_def fp_le_def)
  qed
qed

text \<open>The powers of two in the range of the normal numbers are values of the format.\<close>

lemma magnitude32_powr:
  assumes "- 126 \<le> k"
  shows "magnitude32 (2 powr of_int k) = 2 powr of_int k"
proof -
  have e: "exponent32 (2 powr of_int k) = k" using assms by (simp add: exponent32_def)
  have "2 powr of_int k / ulp32 (2 powr of_int k) = 2 powr (of_int k - of_int (k - 23))"
    by (simp only: ulp32_def e powr_diff)
  also have "of_int k - of_int (k - 23) = (23 :: real)" by simp
  also have "2 powr (23 :: real) = of_int (2 ^ 23)" by simp
  finally have "round_half_even (2 powr of_int k / ulp32 (2 powr of_int k)) = 2 ^ 23"
    by (simp only: round_half_even_of_int)
  then have "magnitude32 (2 powr of_int k) = ulp32 (2 powr of_int k) * of_int (2 ^ 23)"
    by (simp only: magnitude32_def)
  also have "\<dots> = 2 powr of_int (k - 23) * 2 powr 23" by (simp add: ulp32_def e)
  also have "\<dots> = 2 powr (of_int (k - 23) + 23)" by (simp only: powr_add)
  also have "of_int (k - 23) + 23 = (of_int k :: real)" by simp
  finally show ?thesis .
qed

lemma round32_powr:
  assumes "- 126 \<le> k" and "k \<le> 127"
  shows "round32 (2 powr of_int k) = Finite (2 powr of_int k)"
proof -
  have "2 powr of_int k < (2 powr 128 :: real)" using assms(2) by (intro powr_less_mono) simp_all
  then have "\<not> (2 ^ 128 \<le> (2 powr of_int k :: real))" by simp
  then show ?thesis using assms(1) by (simp add: round32_def magnitude32_powr)
qed

text \<open>A number below half of the smallest subnormal number is rounded to zero.\<close>

lemma round32_underflow:
  assumes "0 \<le> a" and "a < 2 powr (- 150)"
  shows "round32 a = Finite 0"
proof (cases "a = 0")
  case True
  then show ?thesis by (simp add: round32_def magnitude32_zero)
next
  case False
  then have a: "0 < a" using assms(1) by simp
  have "0 < (2 powr (- 150) :: real)" by simp
  then have "log 2 a < log 2 (2 powr (- 150))"
    using a assms(2) by (subst log_less_cancel_iff) simp_all
  then have "log 2 a < - 150" by simp
  then have "\<lfloor>log 2 a\<rfloor> < - 126" by linarith
  then have e: "exponent32 a = - 126" by (simp add: exponent32_def)
  have u: "ulp32 a = 2 powr (- 149)" by (simp add: ulp32_def e)
  have "a / ulp32 a < 2 powr (- 150) / 2 powr (- 149)"
    unfolding u using assms(2) by (simp add: divide_strict_right_mono)
  also have "2 powr (- 150) / 2 powr (- 149) = (2 powr (- 150 - (- 149)) :: real)"
    by (simp only: powr_diff)
  also have "\<dots> = 1 / 2" by (simp add: powr_minus)
  finally have lt: "a / ulp32 a < 1 / 2" .
  have ge: "0 \<le> a / ulp32 a" using a ulp32_pos [of a] by simp
  have "a / ulp32 a < 1" using lt by linarith
  then have "\<lfloor>a / ulp32 a\<rfloor> = 0" using ge by (simp add: floor_eq_iff)
  then have "round_half_even (a / ulp32 a) = 0" using lt by (simp add: round_half_even_def)
  then have "magnitude32 a = 0" by (simp add: magnitude32_def)
  then show ?thesis using a by (simp add: round32_def)
qed

text \<open>The values of the format that the examples below use.\<close>

lemma powr_neg_nat: "(2 :: real) powr of_int (- int n) = 1 / 2 ^ n"
  by (simp add: powr_minus powr_realpow divide_inverse)

lemma round32_inverse_power:
  assumes "n \<le> 126"
  shows "round32 (1 / 2 ^ n) = Finite (1 / 2 ^ n)"
  using round32_powr [of "- int n"] assms by (simp only: powr_neg_nat)

lemma round32_inverse_power_underflow:
  assumes "150 < n"
  shows "round32 (1 / 2 ^ n) = Finite 0"
proof -
  have "(1 / 2 ^ n :: real) = 2 powr of_int (- int n)" by (simp only: powr_neg_nat)
  also have "\<dots> < 2 powr (- 150)" using assms by (intro powr_less_mono) simp_all
  finally show ?thesis by (intro round32_underflow) simp_all
qed

lemma round32_values:
  "round32 0 = Finite 0"
  "round32 1 = Finite 1"
  "round32 (1 / 2 ^ 4) = Finite (1 / 2 ^ 4)"
  "round32 (1 / 2 ^ 100) = Finite (1 / 2 ^ 100)"
  "round32 (1 / 2 ^ 200) = Finite 0"
proof -
  show "round32 0 = Finite 0" using rounding_round32 by (rule rounding_zero)
  show "round32 1 = Finite 1" using round32_inverse_power [of 0] by simp
  show "round32 (1 / 2 ^ 4) = Finite (1 / 2 ^ 4)" by (rule round32_inverse_power) simp
  show "round32 (1 / 2 ^ 100) = Finite (1 / 2 ^ 100)" by (rule round32_inverse_power) simp
  show "round32 (1 / 2 ^ 200) = Finite 0" by (rule round32_inverse_power_underflow) simp
qed

lemma round32_default_beta:
  obtains b where "round32 (1 / 9) = Finite b" and "1 / 2 ^ 4 \<le> b" and "b \<le> 1"
proof -
  have "fp_le (round32 (1 / 2 ^ 4)) (round32 (1 / 9))" "fp_le (round32 (1 / 9)) (round32 1)"
    using rounding_round32 by (simp_all add: rounding_mono)
  then have "fp_le (Finite (1 / 2 ^ 4)) (round32 (1 / 9))" "fp_le (round32 (1 / 9)) (Finite 1)"
    by (simp_all only: round32_values)
  then show ?thesis
    using that by (cases "round32 (1 / 9)") (simp_all add: fp_le_def)
qed

subsection \<open>Sign and zero of the loss\<close>

text \<open>
  Claim C7, as stated: for every pair of equal-shaped tensors and every \<open>beta > 0\<close>, under
  both reductions, the loss is non-negative, and zero exactly when the two tensors are
  equal. In \<open>float32\<close>, with the default \<open>beta = 1 / 9\<close>: two tensors without elements
  are equal, and the mean of their loss is \<open>nan\<close>, which is neither zero nor
  non-negative; the tensors \<open>[1 / 2 ^ 100]\<close> and \<open>[0]\<close> differ, and their loss is zero
  under both reductions, because the square of \<open>1 / 2 ^ 100\<close> is rounded to zero; the
  tensors \<open>[inf]\<close> and \<open>[inf]\<close> are equal, and their loss is \<open>nan\<close>.
\<close>

theorem reconstruction_loss_fp_zero_iff_counterexample:
  "reconstruction_loss_fp round32 round32 (left_to_right 0) [] [] (1 / 9) True = Inr NotANumber \<and>
   \<not> fp_result_nonneg (reconstruction_loss_fp round32 round32 (left_to_right 0) [] [] (1 / 9) True) \<and>
   reconstruction_loss_fp round32 round32 (left_to_right 1) [Finite (1 / 2 ^ 100)] [Finite 0] (1 / 9) True
     = Inr (Finite 0) \<and>
   reconstruction_loss_fp round32 round32 (left_to_right 1) [Finite (1 / 2 ^ 100)] [Finite 0] (1 / 9) False
     = Inr (Finite 0) \<and>
   [Finite (1 / 2 ^ 100)] \<noteq> [Finite 0] \<and>
   reconstruction_loss_fp round32 round32 (left_to_right 1) [PosInf] [PosInf] (1 / 9) False
     = Inr NotANumber"
proof -
  obtain b where b: "round32 (1 / 9) = Finite b" "1 / 2 ^ 4 \<le> b" "b \<le> 1"
    by (rule round32_default_beta)
  define t :: real where "t = 1 / 2 ^ 100"
  have t: "0 \<le> t" "t < b" "round32 t = Finite t" "round32 (t * t) = Finite 0"
  proof -
    show "0 \<le> t" by (simp add: t_def)
    have "t < 1 / 2 ^ 4" unfolding t_def by simp
    then show "t < b" using b(2) by linarith
    show "round32 t = Finite t" unfolding t_def by (rule round32_values)
    have "t * t = 1 / 2 ^ 200" unfolding t_def by simp
    then show "round32 (t * t) = Finite 0" by (simp only: round32_values)
  qed
  have b0: "b \<noteq> 0" using t(1,2) by linarith
  have e: "elementwise_loss_fp round32 (1 / 9) (Finite t) = Finite 0"
    using t b0
    by (simp add: elementwise_loss_fp_def Let_def fp_abs_def fp_lt_def b(1) round32_values(1))
  have d: "fp_sub round32 (Finite t) (Finite 0) = Finite t"
    by (simp add: fp_sub_def fp_neg_def t(3))
  have o: "left_to_right 0 = Initial" "left_to_right 1 = Combine Initial (Element 0)"
    "left_to_right (Suc 0) = Combine Initial (Element 0)"
    by (simp_all add: left_to_right_def)
  have empty: "reconstruction_loss_fp round32 round32 (left_to_right 0) [] [] (1 / 9) True = Inr NotANumber"
    by (simp add: reconstruction_loss_fp_def tensor_sub_fp_def err_bind_def tensor_mean_fp_def
        tensor_sum_fp_def fp_cast_def o round32_values(1))
  have mean: "reconstruction_loss_fp round32 round32 (left_to_right 1) [Finite t] [Finite 0] (1 / 9) True
      = Inr (Finite 0)"
    by (simp add: reconstruction_loss_fp_def tensor_sub_fp_def err_bind_def tensor_mean_fp_def
        tensor_sum_fp_def fp_cast_def Let_def o d e round32_values(1))
  have sum: "reconstruction_loss_fp round32 round32 (left_to_right 1) [Finite t] [Finite 0] (1 / 9) False
      = Inr (Finite 0)"
    by (simp add: reconstruction_loss_fp_def tensor_sub_fp_def err_bind_def
        tensor_sum_fp_def fp_cast_def Let_def o d e round32_values(1))
  have inf: "reconstruction_loss_fp round32 round32 (left_to_right 1) [PosInf] [PosInf] (1 / 9) False
      = Inr NotANumber"
    by (simp add: reconstruction_loss_fp_def tensor_sub_fp_def err_bind_def tensor_sum_fp_def
        fp_cast_def o fp_sub_def fp_neg_def elementwise_loss_fp_def fp_abs_def fp_lt_def)
  have ne: "[Finite t] \<noteq> [Finite 0]" by (simp add: t_def)
  show ?thesis
    using empty mean sum inf ne unfolding t_def by (simp only: fp_result_nonneg_def fp_le_def) simp
qed

text \<open>
  Claim C7, amended: for every pair of floating-point tensors of equal shape whose
  elements are finite, and every \<open>beta > 0\<close> that is finite in the format of the tensors,
  under the sum reduction, and under the mean reduction when the tensors have at least
  one element, in whatever order and with whatever accumulator the elements are added,
  the loss is non-negative (a finite number not below zero, or plus infinity; not
  \<open>nan\<close>), and it is zero when the two tensors are equal.
\<close>

theorem reconstruction_loss_fp_nonneg_zero:
  assumes a: "rounding acc" and r: "rounding rnd" and b: "0 < beta" and f: "rnd beta \<noteq> PosInf"
    and len: "length input = length target"
    and fin: "list_all fp_finite input" "list_all fp_finite target"
    and ord: "reduction_of (length input) order"
    and ne: "size_average \<longrightarrow> input \<noteq> []"
  shows "fp_result_nonneg (reconstruction_loss_fp acc rnd order input target beta size_average) \<and>
         (input = target \<longrightarrow>
            reconstruction_loss_fp acc rnd order input target beta size_average = Inr (Finite 0))"
proof -
  let ?diff = "map2 (fp_sub rnd) input target"
  let ?loss = "map (elementwise_loss_fp rnd beta) ?diff"
  have res: "reconstruction_loss_fp acc rnd order input target beta size_average =
      Inr (if size_average then tensor_mean_fp acc rnd order ?loss else tensor_sum_fp acc rnd order ?loss)"
    using len by (simp add: reconstruction_loss_fp_def tensor_sub_fp_def err_bind_def Let_def)
  have ord': "reduction_of (length ?loss) order" using ord len by simp
  have dn: "\<And>d. d \<in> set ?diff \<Longrightarrow> d \<noteq> NotANumber"
  proof -
    fix d assume "d \<in> set ?diff"
    then obtain x y where "(x, y) \<in> set (zip input target)" "d = fp_sub rnd x y" by auto
    moreover from this have "x \<in> set input" "y \<in> set target" by (auto dest: set_zip_leftD set_zip_rightD)
    ultimately show "d \<noteq> NotANumber"
      using fin fp_sub_finite_not_nan [OF r] by (auto simp: list_all_iff)
  qed
  have ln: "\<And>l. l \<in> set ?loss \<Longrightarrow> fp_le (Finite 0) l"
    using elementwise_loss_fp_nonneg [OF r b f] dn by auto
  have sum: "fp_le (Finite 0) (tensor_sum_fp acc rnd order ?loss)"
    using a r ord' ln by (rule tensor_sum_fp_nonneg)
  have nonneg: "fp_le (Finite 0)
      (if size_average then tensor_mean_fp acc rnd order ?loss else tensor_sum_fp acc rnd order ?loss)"
  proof (cases size_average)
    case True
    with ne len have "0 < real (length ?loss)" by (cases input; cases target) simp_all
    then show ?thesis
      using True fp_div_nonneg [OF r sum] by (simp add: tensor_mean_fp_def)
  next
    case False
    then show ?thesis using sum by simp
  qed
  have zero: "(if size_average then tensor_mean_fp acc rnd order ?loss
               else tensor_sum_fp acc rnd order ?loss) = Finite 0"
    if eq: "input = target"
  proof -
    have dz: "\<And>d. d \<in> set ?diff \<Longrightarrow> d = Finite 0"
    proof -
      fix d assume "d \<in> set ?diff"
      then obtain x where "x \<in> set input" "d = fp_sub rnd x x"
        unfolding eq by (auto simp: zip_same)
      then show "d = Finite 0" using fin(1) fp_sub_self [OF r] by (auto simp: list_all_iff)
    qed
    have lz: "\<And>l. l \<in> set ?loss \<Longrightarrow> l = Finite 0"
    proof -
      fix l assume "l \<in> set ?loss"
      then obtain d where "d \<in> set ?diff" "l = elementwise_loss_fp rnd beta d" by auto
      then show "l = Finite 0" using dz [of d] elementwise_loss_fp_zero [OF r b f] by simp
    qed
    have sz: "tensor_sum_fp acc rnd order ?loss = Finite 0"
      using a r ord' lz by (rule tensor_sum_fp_zero)
    show ?thesis
    proof (cases size_average)
      case True
      with ne len have "real (length ?loss) \<noteq> 0" by (cases input; cases target) simp_all
      then show ?thesis using True sz by (simp add: tensor_mean_fp_def rounding_zero [OF r])
    next
      case False
      then show ?thesis using sz by simp
    qed
  qed
  show ?thesis
    unfolding res using nonneg zero by (simp add: fp_result_nonneg_def)
qed

theorem reconstruction_loss_fp_nonneg_zero_witness:
  "rounding round32 \<and> (0 :: real) < 1 / 9 \<and> round32 (1 / 9) \<noteq> PosInf \<and>
   length [Finite 1, Finite (1 / 2)] = length [Finite 1, Finite (1 / 2)] \<and>
   list_all fp_finite [Finite 1, Finite (1 / 2)] \<and>
   reduction_of (length [Finite 1, Finite (1 / 2)]) (left_to_right 2) \<and>
   [Finite 1, Finite (1 / 2)] \<noteq> [] \<and>
   fp_result_nonneg (reconstruction_loss_fp round32 round32 (left_to_right 2)
     [Finite 1, Finite (1 / 2)] [Finite 1, Finite (1 / 2)] (1 / 9) True) \<and>
   reconstruction_loss_fp round32 round32 (left_to_right 2)
     [Finite 1, Finite (1 / 2)] [Finite 1, Finite (1 / 2)] (1 / 9) True = Inr (Finite 0)"
proof -
  obtain b where b: "round32 (1 / 9) = Finite b" by (rule round32_default_beta)
  have f: "round32 (1 / 9) \<noteq> PosInf" using b by simp
  have p: "(0 :: real) < 1 / 9" by simp
  have l: "list_all fp_finite [Finite 1, Finite (1 / 2)]" by (simp add: fp_finite_def)
  have "length [Finite 1, Finite (1 / 2)] = 2" by simp
  then have o: "reduction_of (length [Finite 1, Finite (1 / 2)]) (left_to_right 2)"
    using reduction_of_left_to_right [of 2] by (simp only:)
  have n: "True \<longrightarrow> [Finite 1, Finite (1 / 2)] \<noteq> []" by simp
  show ?thesis
    using rounding_round32 f l o
      reconstruction_loss_fp_nonneg_zero [OF rounding_round32 rounding_round32 p f refl l l o n]
    by (simp add: fp_result_nonneg_def fp_le_def)
qed

section \<open>Properties of \<open>configure_inference\<close>\<close>

lemma err_bind_Inr_iff: "err_bind m f = Inr y \<longleftrightarrow> (\<exists>x. m = Inr x \<and> f x = Inr y)"
  by (cases m) (simp_all add: err_bind_def)

lemma getattr_setattr_same: "setattr c k v = Inr c' \<Longrightarrow> getattr c' k = Inr v"
  by (auto simp: setattr_def getattr_def update_conv' split: cfg_value.splits)

lemma getattr_setattr_other: "setattr c k v = Inr c' \<Longrightarrow> q \<noteq> k \<Longrightarrow> getattr c' q = getattr c q"
  by (auto simp: setattr_def getattr_def update_conv' split: cfg_value.splits)

lemma getattr_path_append:
  "getattr_path c (ps @ qs) = err_bind (getattr_path c ps) (\<lambda>n. getattr_path n qs)"
  by (induction ps arbitrary: c) (auto simp: err_bind_def split: sum.splits)

lemma getattr_path_snoc:
  "getattr_path c ps = Inr n \<Longrightarrow> getattr_path c (ps @ [k]) = getattr n k"
  by (simp add: getattr_path_append err_bind_def split: sum.split)

text \<open>
  An assignment through a path succeeds exactly when the path leads to a node, and it
  changes that node by one entry.
\<close>

lemma setattr_path_node:
  "setattr_path c ps k v = Inr c' \<Longrightarrow>
   \<exists>kvs. getattr_path c ps = Inr (VNode kvs) \<and> getattr_path c' ps = Inr (VNode (AList.update k v kvs))"
proof (induction ps arbitrary: c c')
  case Nil
  then show ?case by (auto simp: setattr_def split: cfg_value.splits)
next
  case (Cons p ps)
  from Cons.prems obtain child child' where
    g: "getattr c p = Inr child" and s: "setattr_path child ps k v = Inr child'"
    and u: "setattr c p child' = Inr c'"
    by (auto simp: err_bind_Inr_iff)
  from Cons.IH [OF s] obtain kvs where
    "getattr_path child ps = Inr (VNode kvs)"
    "getattr_path child' ps = Inr (VNode (AList.update k v kvs))"
    by blast
  then show ?case using g getattr_setattr_same [OF u] by (simp add: err_bind_def)
qed

lemma setattr_path_returns:
  "getattr_path c ps = Inr (VNode kvs) \<Longrightarrow> \<exists>c'. setattr_path c ps k v = Inr c'"
proof (induction ps arbitrary: c)
  case Nil
  then show ?case by (simp add: setattr_def)
next
  case (Cons p ps)
  from Cons.prems obtain child where
    g: "getattr c p = Inr child" and n: "getattr_path child ps = Inr (VNode kvs)"
    by (auto simp: err_bind_Inr_iff)
  from Cons.IH [OF n] obtain child' where s: "setattr_path child ps k v = Inr child'" by blast
  from g obtain es where "c = VNode es" by (auto simp: getattr_def split: cfg_value.splits)
  then show ?case using g s by (simp add: err_bind_def setattr_def)
qed

lemma setattr_path_other:
  "setattr_path c (p # ps) k v = Inr c' \<Longrightarrow> q \<noteq> p \<Longrightarrow> getattr c' q = getattr c q"
  by (auto simp: err_bind_Inr_iff dest: getattr_setattr_other)

text \<open>
  \<open>configure_inference\<close> returns whenever the assignment of the output directory and the
  two merges succeed and leave a node \<open>MODEL.FRUSTUM3D\<close>.
\<close>

lemma configure_inference_returns:
  assumes "setattr config ''OUTPUT_DIR'' (VStr (opts_output a)) = Inr c0"
    and "merge_from_file (opts_config_file a) c0 = Inr c1"
    and "merge_from_list (opts_opts a) c1 = Inr c2"
    and "getattr_path c2 [''MODEL'', ''FRUSTUM3D''] = Inr (VNode kvs)"
  shows "\<exists>c'. configure_inference merge_from_file merge_from_list a config = Inr c'"
proof -
  let ?ps = "[''MODEL'', ''FRUSTUM3D'']"
  from setattr_path_returns [OF assms(4)] obtain c3 where
    3: "setattr_path c2 ?ps ''IS_LEVEL_64'' (VBool False) = Inr c3" by blast
  from setattr_path_node [OF 3] obtain k3 where "getattr_path c3 ?ps = Inr (VNode k3)" by blast
  from setattr_path_returns [OF this] obtain c4 where
    4: "setattr_path c3 ?ps ''IS_LEVEL_128'' (VBool False) = Inr c4" by blast
  from setattr_path_node [OF 4] obtain k4 where "getattr_path c4 ?ps = Inr (VNode k4)" by blast
  from setattr_path_returns [OF this] obtain c5 where
    5: "setattr_path c4 ?ps ''IS_LEVEL_256'' (VBool False) = Inr c5" by blast
  from setattr_path_node [OF 5] obtain k5 where "getattr_path c5 ?ps = Inr (VNode k5)" by blast
  from setattr_path_returns [OF this] obtain c6 where
    6: "setattr_path c5 ?ps ''FIX'' (VBool True) = Inr c6" by blast
  show ?thesis
    unfolding configure_inference_def
    by (simp only: assms(1-3) 3 4 5 6 err_bind_def sum.case) blast
qed

lemma configure_inference_steps:
  assumes "configure_inference merge_from_file merge_from_list a config = Inr c'"
  obtains c0 c1 c2 c3 c4 c5 where
    "setattr config ''OUTPUT_DIR'' (VStr (opts_output a)) = Inr c0"
    "merge_from_file (opts_config_file a) c0 = Inr c1"
    "merge_from_list (opts_opts a) c1 = Inr c2"
    "setattr_path c2 [''MODEL'', ''FRUSTUM3D''] ''IS_LEVEL_64'' (VBool False) = Inr c3"
    "setattr_path c3 [''MODEL'', ''FRUSTUM3D''] ''IS_LEVEL_128'' (VBool False) = Inr c4"
    "setattr_path c4 [''MODEL'', ''FRUSTUM3D''] ''IS_LEVEL_256'' (VBool False) = Inr c5"
    "setattr_path c5 [''MODEL'', ''FRUSTUM3D''] ''FIX'' (VBool True) = Inr c'"
  using assms unfolding configure_inference_def err_bind_Inr_iff by blast

text \<open>
  In the concrete merge of an override list, a top-level key given last has its value
  afterwards.
\<close>

lemma split_on_no_sep: "sep \<notin> set s \<Longrightarrow> split_on sep s = [s]"
  by (induction s) auto

lemma set_key_top_level:
  assumes "set_key k v c = Inr c'" and "CHR ''.'' \<notin> set k"
  shows "getattr c' k = Inr (decode_value v)"
  using assms by (simp add: set_key_def split_on_no_sep getattr_setattr_same)

lemma spec_merge_from_list_last_wins:
  assumes "even (length kvs)" and "CHR ''.'' \<notin> set k"
    and "spec_merge_from_list (kvs @ [k, v]) c = Inr c'"
  shows "getattr c' k = Inr (decode_value v)"
  using assms
proof (induction kvs c rule: spec_merge_from_list.induct)
  case (1 c)
  then show ?case by (simp add: err_bind_Inr_iff set_key_top_level)
next
  case (2 k' c)
  then show ?case by simp
next
  case (3 k' v' rest c)
  then show ?case by (auto simp: err_bind_Inr_iff)
qed

lemma sample_run:
  "configure_inference (spec_merge_from_file sample_files) spec_merge_from_list sample_opts sample_config
     = Inr sample_finalized"
  by (simp add: configure_inference_def sample_files_def sample_opts_def sample_config_def
     sample_finalized_def spec_merge_from_file_def set_key_def decode_value_def err_bind_def
     setattr_def getattr_def)

text \<open>
  Claim C1. For every base configuration, configuration file and override list, and
  whatever the two merge operations do with them, the configuration that
  \<open>configure_inference\<close> returns has \<open>MODEL.FRUSTUM3D.IS_LEVEL_64\<close>,
  \<open>IS_LEVEL_128\<close> and \<open>IS_LEVEL_256\<close> false and \<open>MODEL.FRUSTUM3D.FIX\<close> true: the four
  assignments come after both merges.
\<close>

theorem configure_inference_flags:
  assumes "configure_inference merge_from_file merge_from_list a config = Inr c'"
  shows "getattr_path c' [''MODEL'', ''FRUSTUM3D'', ''IS_LEVEL_64''] = Inr (VBool False) \<and>
         getattr_path c' [''MODEL'', ''FRUSTUM3D'', ''IS_LEVEL_128''] = Inr (VBool False) \<and>
         getattr_path c' [''MODEL'', ''FRUSTUM3D'', ''IS_LEVEL_256''] = Inr (VBool False) \<and>
         getattr_path c' [''MODEL'', ''FRUSTUM3D'', ''FIX''] = Inr (VBool True)"
proof -
  let ?ps = "[''MODEL'', ''FRUSTUM3D'']"
  from assms obtain c2 c3 c4 c5 where
    3: "setattr_path c2 ?ps ''IS_LEVEL_64'' (VBool False) = Inr c3" and
    4: "setattr_path c3 ?ps ''IS_LEVEL_128'' (VBool False) = Inr c4" and
    5: "setattr_path c4 ?ps ''IS_LEVEL_256'' (VBool False) = Inr c5" and
    6: "setattr_path c5 ?ps ''FIX'' (VBool True) = Inr c'"
    by (rule configure_inference_steps)
  from setattr_path_node [OF 3] obtain k2 where
    n3: "getattr_path c3 ?ps = Inr (VNode (AList.update ''IS_LEVEL_64'' (VBool False) k2))" by blast
  from setattr_path_node [OF 4] n3 have
    n4: "getattr_path c4 ?ps = Inr (VNode (AList.update ''IS_LEVEL_128'' (VBool False)
           (AList.update ''IS_LEVEL_64'' (VBool False) k2)))" by auto
  from setattr_path_node [OF 5] n4 have
    n5: "getattr_path c5 ?ps = Inr (VNode (AList.update ''IS_LEVEL_256'' (VBool False)
           (AList.update ''IS_LEVEL_128'' (VBool False)
           (AList.update ''IS_LEVEL_64'' (VBool False) k2))))" by auto
  from setattr_path_node [OF 6] n5 have
    n6: "getattr_path c' ?ps = Inr (VNode (AList.update ''FIX'' (VBool True)
           (AList.update ''IS_LEVEL_256'' (VBool False)
           (AList.update ''IS_LEVEL_128'' (VBool False)
           (AList.update ''IS_LEVEL_64'' (VBool False) k2)))))" by auto
  have r: "\<And>k. getattr_path c' (?ps @ [k]) =
             getattr (VNode (AList.update ''FIX'' (VBool True)
               (AList.update ''IS_LEVEL_256'' (VBool False)
               (AList.update ''IS_LEVEL_128'' (VBool False)
               (AList.update ''IS_LEVEL_64'' (VBool False) k2))))) k"
    using n6 by (rule getattr_path_snoc)
  show ?thesis
    using r [of "''IS_LEVEL_64''"] r [of "''IS_LEVEL_128''"] r [of "''IS_LEVEL_256''"] r [of "''FIX''"]
    by (simp add: getattr_def update_conv')
qed

theorem configure_inference_flags_witness:
  "configure_inference (spec_merge_from_file sample_files) spec_merge_from_list sample_opts sample_config
     = Inr sample_finalized \<and>
   getattr_path sample_config [''MODEL'', ''FRUSTUM3D'', ''IS_LEVEL_64''] = Inr (VBool True) \<and>
   getattr_path sample_finalized [''MODEL'', ''FRUSTUM3D'', ''IS_LEVEL_64''] = Inr (VBool False) \<and>
   getattr_path sample_finalized [''MODEL'', ''FRUSTUM3D'', ''IS_LEVEL_128''] = Inr (VBool False) \<and>
   getattr_path sample_finalized [''MODEL'', ''FRUSTUM3D'', ''IS_LEVEL_256''] = Inr (VBool False) \<and>
   getattr_path sample_finalized [''MODEL'', ''FRUSTUM3D'', ''FIX''] = Inr (VBool True)"
  using sample_run configure_inference_flags [OF sample_run]
  by (simp add: sample_config_def getattr_def err_bind_def)

text \<open>
  Claim C10. \<open>configure_inference\<close> assigns \<open>config.OUTPUT_DIR\<close> from \<open>opts.output\<close>
  before the two merges. So when the configuration file or the override list sets
  \<open>OUTPUT_DIR\<close>, that is when \<open>OUTPUT_DIR\<close> has the value \<open>d\<close> after the merges, the
  finalized \<open>OUTPUT_DIR\<close>, and with it the directory that \<open>main\<close> hands to the export, is
  \<open>d\<close> and not the command line's \<open>--output\<close>.
\<close>

theorem configure_inference_output_dir:
  assumes "setattr config ''OUTPUT_DIR'' (VStr (opts_output a)) = Inr c0"
    and "merge_from_file (opts_config_file a) c0 = Inr c1"
    and "merge_from_list (opts_opts a) c1 = Inr c2"
    and "getattr_path c2 [''MODEL'', ''FRUSTUM3D''] = Inr (VNode kvs)"
    and "getattr c2 ''OUTPUT_DIR'' = Inr d"
  shows "getattr c0 ''OUTPUT_DIR'' = Inr (VStr (opts_output a)) \<and>
         (\<exists>c'. configure_inference merge_from_file merge_from_list a config = Inr c' \<and>
               getattr c' ''OUTPUT_DIR'' = Inr d) \<and>
         main_output_dir merge_from_file merge_from_list a config = Inr d"
proof -
  have "\<exists>c'. configure_inference merge_from_file merge_from_list a config = Inr c'"
    using assms(1-4) by (rule configure_inference_returns)
  then obtain c' where
    c': "configure_inference merge_from_file merge_from_list a config = Inr c'" by blast
  from c' obtain b0 b1 b2 c3 c4 c5 where
    b: "setattr config ''OUTPUT_DIR'' (VStr (opts_output a)) = Inr b0"
       "merge_from_file (opts_config_file a) b0 = Inr b1"
       "merge_from_list (opts_opts a) b1 = Inr b2" and
    3: "setattr_path b2 [''MODEL'', ''FRUSTUM3D''] ''IS_LEVEL_64'' (VBool False) = Inr c3" and
    4: "setattr_path c3 [''MODEL'', ''FRUSTUM3D''] ''IS_LEVEL_128'' (VBool False) = Inr c4" and
    5: "setattr_path c4 [''MODEL'', ''FRUSTUM3D''] ''IS_LEVEL_256'' (VBool False) = Inr c5" and
    6: "setattr_path c5 [''MODEL'', ''FRUSTUM3D''] ''FIX'' (VBool True) = Inr c'"
    by (rule configure_inference_steps)
  from b assms(1-3) have "b2 = c2" by simp
  have ne: "''OUTPUT_DIR'' \<noteq> ''MODEL''" by simp
  have "getattr c' ''OUTPUT_DIR'' = getattr c2 ''OUTPUT_DIR''"
    using setattr_path_other [OF 3 ne] setattr_path_other [OF 4 ne]
      setattr_path_other [OF 5 ne] setattr_path_other [OF 6 ne] \<open>b2 = c2\<close> by simp
  then have d: "getattr c' ''OUTPUT_DIR'' = Inr d" using assms(5) by simp
  show ?thesis
    using getattr_setattr_same [OF assms(1)] c' d
    by (simp add: main_output_dir_def err_bind_def)
qed

theorem configure_inference_output_dir_witness:
  "opts_output sample_opts = ''out'' \<and>
   main_output_dir (spec_merge_from_file sample_files) spec_merge_from_list sample_opts sample_config
     = Inr (VStr ''elsewhere'') \<and>
   (\<exists>c'. configure_inference (spec_merge_from_file sample_files) spec_merge_from_list sample_opts
            sample_config = Inr c' \<and>
         getattr c' ''OUTPUT_DIR'' = Inr (VStr ''elsewhere''))"
proof -
  define node where "node =
    [(''IS_LEVEL_64'', VBool True), (''IS_LEVEL_128'', VBool True),
     (''IS_LEVEL_256'', VBool True), (''FIX'', VBool False),
     (''GRID_DIMENSIONS'', VList [VInt 2, VInt 2, VInt 2]),
     (''TRUNCATION'', VReal 3), (''ISO_VALUE'', VReal 1)]"
  define cfg where "cfg = (\<lambda>d. VNode [(''OUTPUT_DIR'', VStr d), (''MODEL'', VNode [(''FRUSTUM3D'', VNode node)])])"
  have 1: "setattr sample_config ''OUTPUT_DIR'' (VStr (opts_output sample_opts)) = Inr (cfg ''out'')"
    by (simp add: cfg_def node_def sample_config_def sample_opts_def setattr_def)
  have 2: "spec_merge_from_file sample_files (opts_config_file sample_opts) (cfg ''out'') = Inr (cfg ''from_file'')"
    by (simp add: cfg_def node_def sample_files_def sample_opts_def spec_merge_from_file_def
        set_key_def decode_value_def err_bind_def setattr_def getattr_def)
  have 3: "spec_merge_from_list (opts_opts sample_opts) (cfg ''from_file'') = Inr (cfg ''elsewhere'')"
    by (simp add: cfg_def node_def sample_opts_def
        set_key_def decode_value_def err_bind_def setattr_def getattr_def)
  have 4: "getattr_path (cfg ''elsewhere'') [''MODEL'', ''FRUSTUM3D''] = Inr (VNode node)"
    by (simp add: cfg_def err_bind_def getattr_def)
  have 5: "getattr (cfg ''elsewhere'') ''OUTPUT_DIR'' = Inr (VStr ''elsewhere'')"
    by (simp add: cfg_def getattr_def)
  show ?thesis
    using configure_inference_output_dir [where merge_from_file = "spec_merge_from_file sample_files"
        and merge_from_list = spec_merge_from_list, OF 1 2 3 4 5]
    by (simp add: sample_opts_def)
qed

section \<open>Properties of \<open>adjust_intrinsic\<close>\<close>

text \<open>
  Claim C9. Rescaling the reference intrinsic matrix from the colour resolution
  \<open>320 \<times> 240\<close> to the depth resolution \<open>160 \<times> 120\<close>, as \<open>main\<close> does, is exactly
  proportional: the two focal lengths and the two coordinates of the principal point of
  the adjusted matrix are exactly half of those of the given matrix.
\<close>

theorem adjust_intrinsic_halves:
  assumes "entry K 0 0 = Inr fx" and "entry K 1 1 = Inr fy"
    and "entry K 0 2 = Inr cx" and "entry K 1 2 = Inr cy"
  shows "\<exists>K'. main_front3d_intrinsic K = Inr K' \<and>
           entry K' 0 0 = Inr (fx / 2) \<and> entry K' 1 1 = Inr (fy / 2) \<and>
           entry K' 0 2 = Inr (cx / 2) \<and> entry K' 1 2 = Inr (cy / 2)"
proof -
  from assms have len: "1 < length K" "2 < length (K ! 0)" "2 < length (K ! 1)"
    and v: "K ! 0 ! 0 = fx" "K ! 1 ! 1 = fy" "K ! 0 ! 2 = cx" "K ! 1 ! 2 = cy"
    by (auto simp: entry_def split: if_splits)
  have ne: "K \<noteq> []" "K ! 0 \<noteq> []" using len by auto
  show ?thesis
    using len v ne
    by (simp add: main_front3d_intrinsic_def adjust_intrinsic_def color_image_size_def
        depth_image_size_def scale_entry_def err_bind_def entry_def Let_def)
qed

theorem adjust_intrinsic_halves_witness:
  "entry [[280, 0, 160], [0, 280, 120], [0, 0, 1]] 0 0 = Inr 280 \<and>
   entry [[280, 0, 160], [0, 280, 120], [0, 0, 1]] 1 1 = Inr 280 \<and>
   entry [[280, 0, 160], [0, 280, 120], [0, 0, 1]] 0 2 = Inr 160 \<and>
   entry [[280, 0, 160], [0, 280, 120], [0, 0, 1]] 1 2 = Inr 120 \<and>
   (\<exists>K'. main_front3d_intrinsic [[280, 0, 160], [0, 280, 120], [0, 0, 1]] = Inr K' \<and>
      entry K' 0 0 = Inr 140 \<and> entry K' 1 1 = Inr 140 \<and>
      entry K' 0 2 = Inr 80 \<and> entry K' 1 2 = Inr 60)"
  using adjust_intrinsic_halves [of "[[280, 0, 160], [0, 280, 120], [0, 0, 1]]" 280 280 160 120]
  by (simp add: entry_def)

section \<open>Properties of the paths\<close>

lemma Path_depth_prediction:
  "Path ''/depth_prediction.ply'' = PosixPath ''/'' [''depth_prediction.ply'']"
  by (simp add: Path_def splitroot_def)

lemma joinpath_depth_prediction:
  "joinpath p ''/depth_prediction.ply'' = PosixPath ''/'' [''depth_prediction.ply'']"
  by (simp add: joinpath_def Path_depth_prediction)

lemma path_parents_depth_prediction:
  "path_parents (PosixPath ''/'' [''depth_prediction.ply'']) = [PosixPath ''/'' []]"
  by (simp add: path_parents_def)

text \<open>
  Claim C6, as stated: for every output directory, the destination of the depth point
  cloud, made by joining the output directory and \<open>/depth_prediction.ply\<close>, is the path
  \<open>/depth_prediction.ply\<close> at the root of the file system and not a file under the
  output directory. When the output directory is the root itself, the destination is the
  same path as the output directory joined with \<open>depth_prediction.ply\<close>, a file
  directly under the output directory.
\<close>

theorem depth_prediction_under_root_counterexample:
  "fst (visualize_results 0 sample_finalized sample_results ''/'') ! 0 = Mkdir (PosixPath ''/'' []) \<and>
   fst (visualize_results 0 sample_finalized sample_results ''/'') ! 1 =
     To_pointcloud (squeeze (depth sample_results)) (intrinsic sample_results)
       (joinpath (Path ''/'') ''depth_prediction.ply'') \<and>
   Path ''/'' \<in> set (path_parents (joinpath (Path ''/'') ''/depth_prediction.ply''))"
  by (simp add: visualize_results_def Let_def joinpath_def Path_def splitroot_def path_parents_def
      split: sum.split prod.split)

text \<open>
  Claim C6, amended: for every output directory, the destination of the depth point cloud
  is the path \<open>/depth_prediction.ply\<close> at the root of the file system; the output
  directory is among the directories above it only when the output directory is the
  root itself.
\<close>

theorem visualize_results_depth_prediction_path:
  "fst (visualize_results dense_default config results output_path) ! 1 =
     To_pointcloud (squeeze (depth results)) (intrinsic results)
       (PosixPath ''/'' [''depth_prediction.ply'']) \<and>
   (Path output_path \<in> set (path_parents (PosixPath ''/'' [''depth_prediction.ply''])) \<longleftrightarrow>
      Path output_path = PosixPath ''/'' [])"
  by (simp add: visualize_results_def Let_def joinpath_depth_prediction path_parents_depth_prediction
      split: sum.split prod.split)

section \<open>Properties of the dense grids\<close>

text \<open>The index tuples of a shape: their number, what they are, and that none repeats.\<close>

lemma indices_one: "indices (Suc 0 # ds) = map ((#) 0) (indices ds)"
  by simp

lemma length_concat_const:
  "(\<And>x. x \<in> set xs \<Longrightarrow> length (f x) = n) \<Longrightarrow> length (concat (map f xs)) = length xs * n"
  by (induction xs) auto

lemma length_indices: "length (indices ds) = prod_list ds"
  by (induction ds) (simp_all add: length_concat_const)

lemma set_indices_Cons:
  "set (indices (d # ds)) = {i # js | i js. i < d \<and> js \<in> set (indices ds)}"
  by auto

lemma set_indices3:
  "set (indices [X, Y, Z]) = {[x, y, z] | x y z. x < X \<and> y < Y \<and> z < Z}"
  unfolding set_indices_Cons by auto

lemma distinct_concat_map_Cons:
  "distinct xs \<Longrightarrow> distinct ys \<Longrightarrow> distinct (concat (map (\<lambda>i. map ((#) i) ys) xs))"
  by (induction xs) (auto simp: distinct_map)

lemma distinct_indices: "distinct (indices ds)"
  by (induction ds) (simp_all add: distinct_concat_map_Cons)

lemma filter_zip_map: "map fst (filter snd (zip xs (map g xs))) = filter g xs"
  by (induction xs) auto

lemma map_the_map_of_zip:
  "distinct xs \<Longrightarrow> length xs = length ys \<Longrightarrow> map (\<lambda>x. the (map_of (zip xs ys) x)) xs = ys"
proof (induction xs arbitrary: ys)
  case Nil
  then show ?case by simp
next
  case (Cons x xs)
  then obtain y ys' where ys: "ys = y # ys'" by (cases ys) auto
  with Cons.prems have d: "distinct xs" "x \<notin> set xs" "length xs = length ys'" by auto
  have "map (\<lambda>a. the (map_of (zip (x # xs) ys) a)) xs = map (\<lambda>a. the (map_of (zip xs ys') a)) xs"
    using d(2) ys by (intro map_cong) auto
  then show ?case using Cons.IH [OF d(1) d(3)] ys by simp
qed

text \<open>A tensor is well formed when it has one element for each index.\<close>

lemma data_as_map:
  assumes "length (data g) = prod_list (shape g)"
  shows "data g = map (\<lambda>i. the (tensor_at g i)) (indices (shape g))"
  unfolding tensor_at_def
  using map_the_map_of_zip [OF distinct_indices, of "shape g" "data g"] assms
  by (simp add: length_indices)

lemma tensor_at_map:
  "data g = map f (indices (shape g)) \<Longrightarrow>
   tensor_at g i = (if i \<in> set (indices (shape g)) then Some (f i) else None)"
  by (simp add: tensor_at_def map_of_zip_map)

lemma surface_points_map:
  assumes "shape g = [1, 1, X, Y, Z]" and "X \<noteq> 1" and "Y \<noteq> 1" and "Z \<noteq> 1"
    and "data g = map f (indices (shape g))"
  shows "surface_points g tau = map (map int) (filter (\<lambda>i. f (0 # 0 # i) < tau) (indices [X, Y, Z]))"
proof -
  have sh: "shape (squeeze (tensor_lt g tau)) = [X, Y, Z]"
    using assms(1-4) by (simp add: squeeze_def tensor_lt_def)
  have "indices (shape g) = map (\<lambda>i. 0 # 0 # i) (indices [X, Y, Z])"
    unfolding assms(1) by (simp only: One_nat_def indices_one map_map comp_def)
  then have "data (squeeze (tensor_lt g tau)) = map (\<lambda>i. f (0 # 0 # i) < tau) (indices [X, Y, Z])"
    using assms(5) by (simp add: squeeze_def tensor_lt_def comp_def)
  then show ?thesis
    unfolding surface_points_def nonzero_def sh by (simp only: filter_zip_map)
qed

lemma set_voxels_below_map:
  assumes "shape g = [1, 1, X, Y, Z]" and "data g = map f (indices (shape g))"
  shows "set (voxels_below g tau) =
    {[int x, int y, int z] | x y z. x < X \<and> y < Y \<and> z < Z \<and> f [0, 0, x, y, z] < tau}"
proof -
  have in5: "\<And>x y z. [0, 0, x, y, z] \<in> set (indices (shape g)) \<longleftrightarrow> x < X \<and> y < Y \<and> z < Z"
    unfolding assms(1) set_indices_Cons by auto
  have at: "\<And>x y z. tensor_at g [0, 0, x, y, z] =
      (if x < X \<and> y < Y \<and> z < Z then Some (f [0, 0, x, y, z]) else None)"
    using tensor_at_map [OF assms(2)] in5 by simp
  show ?thesis
    unfolding voxels_below_def assms(1) by (auto simp: at split: if_splits)
qed

lemma set_surface_points_map:
  assumes "shape g = [1, 1, X, Y, Z]" and "X \<noteq> 1" and "Y \<noteq> 1" and "Z \<noteq> 1"
    and "data g = map f (indices (shape g))"
  shows "set (surface_points g tau) = set (voxels_below g tau)"
proof -
  have "set (filter (\<lambda>i. f (0 # 0 # i) < tau) (indices [X, Y, Z])) =
      {[x, y, z] | x y z. x < X \<and> y < Y \<and> z < Z \<and> f [0, 0, x, y, z] < tau}"
    unfolding set_filter set_indices3 by auto
  then have "set (surface_points g tau) =
      map int ` {[x, y, z] | x y z. x < X \<and> y < Y \<and> z < Z \<and> f [0, 0, x, y, z] < tau}"
    unfolding surface_points_map [OF assms] by (simp only: set_map)
  also have "\<dots> = set (voxels_below g tau)"
    unfolding set_voxels_below_map [OF assms(1,5)]
  proof (intro set_eqI iffI)
    fix p assume "p \<in> map int ` {[x, y, z] | x y z. x < X \<and> y < Y \<and> z < Z \<and> f [0, 0, x, y, z] < tau}"
    then show "p \<in> {[int x, int y, int z] | x y z. x < X \<and> y < Y \<and> z < Z \<and> f [0, 0, x, y, z] < tau}"
      by auto
  next
    fix p assume "p \<in> {[int x, int y, int z] | x y z. x < X \<and> y < Y \<and> z < Z \<and> f [0, 0, x, y, z] < tau}"
    then obtain x y z where p: "p = map int [x, y, z]" and
      "x < X \<and> y < Y \<and> z < Z \<and> f [0, 0, x, y, z] < tau" by auto
    then have "[x, y, z] \<in> {[x, y, z] | x y z. x < X \<and> y < Y \<and> z < Z \<and> f [0, 0, x, y, z] < tau}"
      by blast
    then show "p \<in> map int ` {[x, y, z] | x y z. x < X \<and> y < Y \<and> z < Z \<and> f [0, 0, x, y, z] < tau}"
      unfolding p by (rule imageI)
  qed
  finally show ?thesis .
qed

lemma set_surface_points:
  assumes "shape g = [1, 1, X, Y, Z]" and "X \<noteq> 1" and "Y \<noteq> 1" and "Z \<noteq> 1"
    and "length (data g) = prod_list (shape g)"
  shows "set (surface_points g tau) = set (voxels_below g tau)"
  using assms(1-4) data_as_map [OF assms(5)] by (rule set_surface_points_map)






text \<open>The grids that \<open>dense\<close> returns.\<close>

lemma dense_well_formed: "length (data (dense t dims mc d)) = prod_list (shape (dense t dims mc d))"
  by (simp add: dense_def length_indices)

lemma dense_cell_empty: "C t = [] \<Longrightarrow> dense_cell t mc d idx = d"
  by (simp add: dense_cell_def split: list.split)

lemma dense_empty:
  assumes "C t = []"
  shows "dense t dims mc d = full dims d"
proof -
  have "dense_cell t mc d = (\<lambda>i. d)"
    using assms by (intro ext) (rule dense_cell_empty)
  then show ?thesis
    by (simp add: dense_def full_def map_replicate_const length_indices)
qed

lemma dense_grids_Inr:
  assumes "config_grid_dimensions config = Inr grid"
    and "frustum3d_value config ''TRUNCATION'' = Inr tv" and "as_number tv = Inr t"
    and "frustum3d_value config ''ISO_VALUE'' = Inr iv"
  shows "dense_grids dd config results =
     Inr (dense (frustum_geometry results) (1 # 1 # grid) [0, 0, 0] t,
          dense (panoptic_semantics results) (1 # 1 # grid) [0, 0, 0] dd,
          dense (panoptic_instances results) (1 # 1 # grid) [0, 0, 0] dd,
          iv)"
  by (simp add: dense_grids_def assms err_bind_def Let_def)

lemma dense_outputs_Inr:
  assumes "config_grid_dimensions config = Inr grid" and "config_truncation config = Inr t"
    and "config_iso_value config = Inr tau"
  shows "dense_outputs dd config results =
     Inr (dense (frustum_geometry results) (1 # 1 # grid) [0, 0, 0] t,
          dense (panoptic_semantics results) (1 # 1 # grid) [0, 0, 0] dd,
          dense (panoptic_instances results) (1 # 1 # grid) [0, 0, 0] dd,
          tau)"
proof -
  from assms(2) obtain tv where tv: "frustum3d_value config ''TRUNCATION'' = Inr tv" "as_number tv = Inr t"
    by (auto simp: config_truncation_def err_bind_Inr_iff)
  from assms(3) obtain iv where iv: "frustum3d_value config ''ISO_VALUE'' = Inr iv" "as_scalar iv = Inr tau"
    by (auto simp: config_iso_value_def err_bind_Inr_iff)
  show ?thesis
    by (simp add: dense_outputs_def dense_grids_Inr [OF assms(1) tv iv(1)] iv(2) err_bind_def)
qed

lemma flat_grid_reads:
  "config_grid_dimensions flat_grid_config = Inr [1, 1, 2]"
  "config_truncation flat_grid_config = Inr 3"
  "config_iso_value flat_grid_config = Inr 4"
  by (simp_all add: config_grid_dimensions_def config_truncation_def config_iso_value_def
      frustum3d_value_def flat_grid_config_def getattr_def err_bind_def as_dimensions_def as_number_def
      as_scalar_def)


text \<open>
  Claim C3, as stated: each of the three sparse tensors is materialized with the grid
  dimensions \<open>(1, 1, X, Y, Z)\<close>, the minimum coordinate \<open>(0, 0, 0)\<close> and the configured
  truncation as the fill, so that a tensor without entries gives a grid filled with the
  truncation. The panoptic semantics are materialized without a fill argument: with a
  truncation of 3 and a library default of 0, a semantics tensor without entries gives a
  grid of zeros.
\<close>

theorem dense_outputs_semantics_fill_counterexample:
  "C (panoptic_semantics empty_results) = [] \<and>
   config_truncation flat_grid_config = Inr 3 \<and>
   fst (snd (projr (dense_outputs 0 flat_grid_config empty_results))) = full [1, 1, 1, 1, 2] 0 \<and>
   fst (snd (projr (dense_outputs 0 flat_grid_config empty_results))) \<noteq> full [1, 1, 1, 1, 2] 3"
  by (simp add: dense_outputs_Inr [OF flat_grid_reads] dense_empty empty_results_def flat_grid_reads full_def)

text \<open>
  Claim C3, amended: the three sparse tensors are materialized with the grid dimensions
  \<open>(1, 1) + GRID_DIMENSIONS\<close> and the minimum coordinate \<open>(0, 0, 0)\<close>; the geometry is
  filled with the configured truncation, the panoptic semantics and instances with the
  default fill of \<open>dense\<close>. A geometry tensor without entries gives a grid filled with
  the truncation, and a panoptic tensor without entries a grid filled with that default.
\<close>

theorem dense_outputs_fill:
  assumes "config_grid_dimensions config = Inr grid" and "config_truncation config = Inr t"
    and "config_iso_value config = Inr tau"
  shows "dense_outputs dd config results =
     Inr (dense (frustum_geometry results) (1 # 1 # grid) [0, 0, 0] t,
          dense (panoptic_semantics results) (1 # 1 # grid) [0, 0, 0] dd,
          dense (panoptic_instances results) (1 # 1 # grid) [0, 0, 0] dd,
          tau) \<and>
     (C (frustum_geometry results) = [] \<longrightarrow>
        dense (frustum_geometry results) (1 # 1 # grid) [0, 0, 0] t = full (1 # 1 # grid) t) \<and>
     (C (panoptic_semantics results) = [] \<longrightarrow>
        dense (panoptic_semantics results) (1 # 1 # grid) [0, 0, 0] dd = full (1 # 1 # grid) dd) \<and>
     (C (panoptic_instances results) = [] \<longrightarrow>
        dense (panoptic_instances results) (1 # 1 # grid) [0, 0, 0] dd = full (1 # 1 # grid) dd)"
  using dense_outputs_Inr [OF assms] by (simp add: dense_empty)

theorem dense_outputs_fill_witness:
  "config_grid_dimensions flat_grid_config = Inr [1, 1, 2] \<and>
   config_truncation flat_grid_config = Inr 3 \<and>
   config_iso_value flat_grid_config = Inr 4 \<and>
   C (frustum_geometry empty_results) = [] \<and>
   dense_outputs 0 flat_grid_config empty_results =
     Inr (full [1, 1, 1, 1, 2] 3, full [1, 1, 1, 1, 2] 0, full [1, 1, 1, 1, 2] 0, 4)"
  using flat_grid_reads dense_outputs_fill [OF flat_grid_reads, of 0 empty_results]
  by (simp add: empty_results_def)

section \<open>Properties of \<open>visualize_results\<close>\<close>


lemma visualize_results_calls:
  assumes "config_grid_dimensions config = Inr grid" and "config_truncation config = Inr t"
    and "config_iso_value config = Inr tau"
  shows "visualize_results dd config results output_path =
    (let out = Path output_path;
         surface = dense (frustum_geometry results) (1 # 1 # grid) [0, 0, 0] t;
         semantics = dense (panoptic_semantics results) (1 # 1 # grid) [0, 0, 0] dd;
         instances = dense (panoptic_instances results) (1 # 1 # grid) [0, 0, 0] dd;
         points = surface_points surface tau
     in ([Mkdir out,
          To_pointcloud (squeeze (depth results)) (intrinsic results)
            (PosixPath ''/'' [''depth_prediction.ply'']),
          Write_depth (squeeze (depth results)) (intrinsic results) (joinpath out ''depth_map.png''),
          Write_detection_image (input_image results) (instance2d results)
            (joinpath out ''detection.png''),
          Write_pointcloud (spatial_coordinates (projection results))
            (joinpath out ''projection.ply''),
          Write_pointcloud (spatial_coordinates (frustum_geometry results))
            (joinpath out ''sparse_coordinates.ply''),
          Write_pointcloud points (joinpath out ''points_geometry.ply''),
          Write_semantic_pointcloud points (joinpath out ''surface_pcd.ply''),
          Write_semantic_pointcloud points (joinpath out ''surface_pcd.ply''),
          Write_distance_field (squeeze surface) None (joinpath out ''mesh_geometry.ply''),
          Write_distance_field (squeeze surface) (Some (squeeze semantics))
            (joinpath out ''mesh_semantics.ply''),
          Write_distance_field (squeeze surface) (Some (squeeze instances))
            (joinpath out ''mesh_instances.ply'')],
         None))"
proof -
  from assms(2) obtain tv where tv: "frustum3d_value config ''TRUNCATION'' = Inr tv" "as_number tv = Inr t"
    by (auto simp: config_truncation_def err_bind_Inr_iff)
  from assms(3) obtain iv where iv: "frustum3d_value config ''ISO_VALUE'' = Inr iv" "as_scalar iv = Inr tau"
    by (auto simp: config_iso_value_def err_bind_Inr_iff)
  show ?thesis
    unfolding visualize_results_def dense_grids_Inr [OF assms(1) tv iv(1)]
    by (simp add: Let_def joinpath_depth_prediction iv(2))
qed

text \<open>
  When the configured iso-value is no number, the run stops at the comparison of the
  surface with it: the sparse coordinates have been written, the surface points and the
  meshes have not.
\<close>

lemma visualize_results_iso_value_no_number:
  assumes "config_grid_dimensions config = Inr grid" and "config_truncation config = Inr t"
    and "frustum3d_value config ''ISO_VALUE'' = Inr iv" and "as_scalar iv = Inl e"
  shows "visualize_results dd config results output_path =
    (let out = Path output_path
     in ([Mkdir out,
          To_pointcloud (squeeze (depth results)) (intrinsic results)
            (PosixPath ''/'' [''depth_prediction.ply'']),
          Write_depth (squeeze (depth results)) (intrinsic results) (joinpath out ''depth_map.png''),
          Write_detection_image (input_image results) (instance2d results)
            (joinpath out ''detection.png''),
          Write_pointcloud (spatial_coordinates (projection results))
            (joinpath out ''projection.ply''),
          Write_pointcloud (spatial_coordinates (frustum_geometry results))
            (joinpath out ''sparse_coordinates.ply'')],
         Some e))"
proof -
  from assms(2) obtain tv where tv: "frustum3d_value config ''TRUNCATION'' = Inr tv" "as_number tv = Inr t"
    by (auto simp: config_truncation_def err_bind_Inr_iff)
  show ?thesis
    unfolding visualize_results_def dense_grids_Inr [OF assms(1) tv assms(3)]
    by (simp add: Let_def joinpath_depth_prediction assms(4))
qed

text \<open>
  The destinations of a run that reads its configuration: the output directory, the depth
  point cloud at the root of the file system, and the nine files under the output
  directory, \<open>surface_pcd.ply\<close> twice.
\<close>

lemma visualize_results_destinations:
  assumes "config_grid_dimensions config = Inr grid" and "config_truncation config = Inr t"
    and "config_iso_value config = Inr tau"
  shows "map destination (fst (visualize_results dd config results output_path)) =
    Path output_path # PosixPath ''/'' [''depth_prediction.ply''] #
    map (joinpath (Path output_path))
      [''depth_map.png'', ''detection.png'', ''projection.ply'', ''sparse_coordinates.ply'',
       ''points_geometry.ply'', ''surface_pcd.ply'', ''surface_pcd.ply'', ''mesh_geometry.ply'',
       ''mesh_semantics.ply'', ''mesh_instances.ply'']"
  unfolding visualize_results_calls [OF assms]
  by (simp add: Let_def)







end
